theory Spec2Isabelle
  imports Complex_Main
begin

section \<open>Graph-structured stochastic iterative hard thresholding (tune\_params.py)\<close>

text \<open>
  The module is Python 2 code on NumPy arrays: the loop bounds \<^verbatim>\<open>range(num_blocks)\<close> with
  \<^verbatim>\<open>num_blocks = int(n) / int(B)\<close> and \<^verbatim>\<open>range(B / b)\<close> only run where \<^verbatim>\<open>/\<close> on two
  integers is floor division, so \<^verbatim>\<open>/\<close> between integers is \<open>div\<close> on \<open>int\<close> here and
  \<^verbatim>\<open>range\<close> builds a list.  Array entries, the learning rate and the tolerances are
  floating-point numbers in the source; they are modelled as \<open>real\<close>, so rounding is not part
  of the model.  Exceptions are values of \<open>py_error\<close>; a function that can raise returns
  \<open>py_error + 'a\<close>.
\<close>

subsection \<open>Exceptions\<close>

datatype py_error = ZeroDivisionError | ValueError | IndexError

definition bind_err :: "py_error + 'a \<Rightarrow> ('a \<Rightarrow> py_error + 'b) \<Rightarrow> py_error + 'b" where
  "bind_err m f = (case m of Inl e \<Rightarrow> Inl e | Inr v \<Rightarrow> f v)"

subsection \<open>Python integers, ranges and indexing\<close>

text \<open>\<^verbatim>\<open>range(lo, hi)\<close>: the list lo, lo + 1, ..., hi - 1 (empty when hi \<le> lo).\<close>

definition py_range :: "int \<Rightarrow> int \<Rightarrow> int list" where
  "py_range lo hi = [lo..hi - 1]"

text \<open>\<^verbatim>\<open>int(r)\<close> of a float: truncation towards zero.\<close>

definition py_int :: "real \<Rightarrow> int" where
  "py_int r = (if 0 \<le> r then \<lfloor>r\<rfloor> else \<lceil>r\<rceil>)"

text \<open>
  An index \<open>i\<close> into an axis of length \<open>len\<close> is accepted when \<open>-len \<le> i < len\<close>; a negative
  index counts from the end.
\<close>

definition valid_index :: "nat \<Rightarrow> int \<Rightarrow> bool" where
  "valid_index len i \<longleftrightarrow> - int len \<le> i \<and> i < int len"

definition norm_index :: "nat \<Rightarrow> int \<Rightarrow> nat" where
  "norm_index len i = nat (if i < 0 then i + int len else i)"

text \<open>\<^verbatim>\<open>a[idx]\<close> for a one-dimensional array and a list of indices.\<close>

definition take_idx :: "'a list \<Rightarrow> int list \<Rightarrow> py_error + 'a list" where
  "take_idx xs idx =
     (if list_all (valid_index (length xs)) idx
      then Inr (map (\<lambda>i. xs ! norm_index (length xs) i) idx)
      else Inl IndexError)"

subsection \<open>The process-wide random generator\<close>

text \<open>
  The state of NumPy's global generator is the sequence of raw numbers it will still
  produce, with the count of draws made so far.  \<^verbatim>\<open>np.random.randint(low, high)\<close> raises
  ValueError when \<open>high \<le> low\<close> and otherwise returns an integer of \<open>[low, high)\<close>; every
  integer of that interval is returned for some generator state.
\<close>

record rng_state =
  raw :: "nat \<Rightarrow> nat"
  drawn :: nat

definition randint :: "int \<Rightarrow> int \<Rightarrow> rng_state \<Rightarrow> py_error + (int \<times> rng_state)" where
  "randint low high r =
     (if high \<le> low then Inl ValueError
      else Inr (low + int (raw r (drawn r) mod nat (high - low)),
                r\<lparr>drawn := Suc (drawn r)\<rparr>))"

subsection \<open>Batch sampler\<close>

text \<open>
  \<^verbatim>\<open>
  def get_batch(batch_size, n):
      num_batches = int(n / batch_size)
      batch_idx = np.random.randint(0, num_batches)
      return range(batch_size * batch_idx, batch_size * (batch_idx + 1))
  \<close>
\<close>

definition get_batch :: "int \<Rightarrow> int \<Rightarrow> rng_state \<Rightarrow> py_error + (int list \<times> rng_state)" where
  "get_batch batch_size n r =
     (if batch_size = 0 then Inl ZeroDivisionError
      else
        let num_batches = n div batch_size in
        bind_err (randint 0 num_batches r) (\<lambda>(batch_idx, r').
          Inr (py_range (batch_size * batch_idx) (batch_size * (batch_idx + 1)), r')))"

subsection \<open>Arrays\<close>

text \<open>
  A one-dimensional array is a list of reals.  A two-dimensional array is its list of rows
  together with the number of columns, which NumPy keeps in the shape also when there is
  no row; \<open>is_matrix\<close> says that every row has that many entries.
\<close>

record matrix =
  ncols :: nat
  rows :: "real list list"

definition nrows :: "matrix \<Rightarrow> nat" where
  "nrows M = length (rows M)"

definition is_matrix :: "matrix \<Rightarrow> bool" where
  "is_matrix M \<longleftrightarrow> list_all (\<lambda>r. length r = ncols M) (rows M)"

text \<open>\<^verbatim>\<open>np.transpose(M)\<close>.\<close>

definition np_transpose :: "matrix \<Rightarrow> matrix" where
  "np_transpose M =
     \<lparr>ncols = nrows M, rows = map (\<lambda>j. map (\<lambda>r. r ! j) (rows M)) [0..<ncols M]\<rparr>"

text \<open>\<^verbatim>\<open>M[idx]\<close>: the rows selected by a list of indices.\<close>

definition select_rows :: "matrix \<Rightarrow> int list \<Rightarrow> py_error + matrix" where
  "select_rows M idx =
     bind_err (take_idx (rows M) idx) (\<lambda>rs. Inr \<lparr>ncols = ncols M, rows = rs\<rparr>)"

text \<open>\<^verbatim>\<open>M[:, idx]\<close>: the columns selected by a list of indices.\<close>

definition select_cols :: "matrix \<Rightarrow> int list \<Rightarrow> py_error + matrix" where
  "select_cols M idx =
     (if list_all (valid_index (ncols M)) idx
      then Inr \<lparr>ncols = length idx,
                rows = map (\<lambda>r. map (\<lambda>i. r ! norm_index (ncols M) i) idx) (rows M)\<rparr>
      else Inl IndexError)"

definition dot :: "real list \<Rightarrow> real list \<Rightarrow> real" where
  "dot u v = sum_list (map2 (*) u v)"

text \<open>\<^verbatim>\<open>np.dot\<close> of two matrices and of a matrix with a vector: the inner dimensions must agree.\<close>

definition np_dot_mm :: "matrix \<Rightarrow> matrix \<Rightarrow> py_error + matrix" where
  "np_dot_mm M N =
     (if ncols M \<noteq> nrows N then Inl ValueError
      else Inr \<lparr>ncols = ncols N,
                rows = map (\<lambda>r. map (\<lambda>k. dot r (map (\<lambda>q. q ! k) (rows N))) [0..<ncols N])
                           (rows M)\<rparr>)"

definition np_dot_mv :: "matrix \<Rightarrow> real list \<Rightarrow> py_error + real list" where
  "np_dot_mv M v =
     (if ncols M \<noteq> length v then Inl ValueError
      else Inr (map (\<lambda>r. dot r v) (rows M)))"

text \<open>
  Elementwise subtraction of one-dimensional arrays, with NumPy's broadcasting: equal
  lengths, or one operand of length 1 stretched to the other's length.
\<close>

definition np_sub :: "real list \<Rightarrow> real list \<Rightarrow> py_error + real list" where
  "np_sub u v =
     (if length u = length v then Inr (map2 (-) u v)
      else if length u = 1 then Inr (map (\<lambda>c. u ! 0 - c) v)
      else if length v = 1 then Inr (map (\<lambda>c. c - v ! 0) u)
      else Inl ValueError)"

definition np_add :: "real list \<Rightarrow> real list \<Rightarrow> py_error + real list" where
  "np_add u v =
     (if length u = length v then Inr (map2 (+) u v)
      else if length u = 1 then Inr (map (\<lambda>c. u ! 0 + c) v)
      else if length v = 1 then Inr (map (\<lambda>c. c + v ! 0) u)
      else Inl ValueError)"

definition np_scale :: "real \<Rightarrow> real list \<Rightarrow> real list" where
  "np_scale c v = map (\<lambda>e. c * e) v"

text \<open>\<^verbatim>\<open>np.linalg.norm\<close> of a one-dimensional array.\<close>

definition np_norm :: "real list \<Rightarrow> real" where
  "np_norm v = sqrt (sum_list (map (\<lambda>e. e * e) v))"

subsection \<open>Gradient evaluator\<close>

text \<open>
  \<^verbatim>\<open>
  def calc_grad(x_mat, y_tr, x_hat, block):
      x_tr_t = np.transpose(x_mat)
      xtx = np.dot(x_tr_t[:, block], x_mat[block])
      xty = np.dot(x_tr_t[:, block], y_tr[block])
      return -2. * (xty - np.dot(xtx, x_hat))
  \<close>
\<close>

definition calc_grad ::
  "matrix \<Rightarrow> real list \<Rightarrow> real list \<Rightarrow> int list \<Rightarrow> py_error + real list" where
  "calc_grad x_mat y_tr x_hat block =
     (let x_tr_t = np_transpose x_mat in
      bind_err (select_cols x_tr_t block) (\<lambda>xt_b.
      bind_err (select_rows x_mat block) (\<lambda>x_b.
      bind_err (np_dot_mm xt_b x_b) (\<lambda>xtx.
      bind_err (select_cols x_tr_t block) (\<lambda>xt_b'.
      bind_err (take_idx y_tr block) (\<lambda>y_b.
      bind_err (np_dot_mv xt_b' y_b) (\<lambda>xty.
      bind_err (np_dot_mv xtx x_hat) (\<lambda>xtx_x.
      bind_err (np_sub xty xtx_x) (\<lambda>d.
        Inr (np_scale (- 2) d))))))))))"

text \<open>
  The formula of the specification, entry by entry: entry \<open>j\<close> of
  \<open>-2 (X\<^sub>B\<^sup>T y\<^sub>B - X\<^sub>B\<^sup>T X\<^sub>B x_hat)\<close>, the sums ranging over the rows that the block selects.
\<close>

definition block_entry :: "matrix \<Rightarrow> int \<Rightarrow> nat \<Rightarrow> real" where
  "block_entry X i j = rows X ! norm_index (nrows X) i ! j"

definition block_gradient :: "matrix \<Rightarrow> real list \<Rightarrow> real list \<Rightarrow> int list \<Rightarrow> real list" where
  "block_gradient X y x_hat block =
     map (\<lambda>j. - 2 *
            ((\<Sum>i\<leftarrow>block. block_entry X i j * y ! norm_index (length y) i)
             - (\<Sum>k\<leftarrow>[0..<ncols X].
                  (\<Sum>i\<leftarrow>block. block_entry X i j * block_entry X i k) * x_hat ! k)))
         [0..<ncols X]"

subsection \<open>Projection-oracle wrapper\<close>

text \<open>
  \<^verbatim>\<open>wrap_head_tail_bisearch\<close> is the external head/tail projection routine of
  \<^verbatim>\<open>sparse_module\<close>; it is a parameter of the model.  An oracle takes the nine arguments of
  the call (edges, prizes, costs, g, root, s_low, s_high, max_num_iter, verbose) and gives
  \<^verbatim>\<open>re_nodes[0]\<close>, the selected vertices.
\<close>

type_synonym proj_oracle =
  "(int \<times> int) list \<Rightarrow> real list \<Rightarrow> real list \<Rightarrow> int \<Rightarrow> int \<Rightarrow> int \<Rightarrow> int \<Rightarrow> int \<Rightarrow> int \<Rightarrow> nat list"

text \<open>\<^verbatim>\<open>x[nodes]\<close> for an array of vertex indices: IndexError when one is out of range.\<close>

definition take_nodes :: "real list \<Rightarrow> nat list \<Rightarrow> py_error + real list" where
  "take_nodes x nodes =
     (if list_all (\<lambda>i. i < length x) nodes then Inr (map (\<lambda>i. x ! i) nodes)
      else Inl IndexError)"

text \<open>\<^verbatim>\<open>w[nodes] = vals\<close>: the assignments are made one after the other.\<close>

definition put_nodes :: "real list \<Rightarrow> nat list \<Rightarrow> real list \<Rightarrow> real list" where
  "put_nodes w nodes vals = fold (\<lambda>(i, v) u. u[i := v]) (zip nodes vals) w"

text \<open>
  \<^verbatim>\<open>
  def algo_head_tail_bisearch(edges, x, costs, g, root, s_low, s_high, max_num_iter, verbose):
      prizes = x * x
      if s_high >= len(prizes) - 1:
          s_high = len(prizes) - 1
      re_nodes = wrap_head_tail_bisearch(
          edges, prizes, costs, g, root, s_low, s_high, max_num_iter, verbose)
      proj_w = np.zeros_like(x)
      proj_w[re_nodes[0]] = x[re_nodes[0]]
      return re_nodes[0], proj_w
  \<close>
\<close>

definition algo_head_tail_bisearch ::
  "proj_oracle \<Rightarrow> (int \<times> int) list \<Rightarrow> real list \<Rightarrow> real list \<Rightarrow> int \<Rightarrow> int \<Rightarrow> int \<Rightarrow> int \<Rightarrow> int \<Rightarrow> int
     \<Rightarrow> py_error + (nat list \<times> real list)" where
  "algo_head_tail_bisearch wrap_head_tail_bisearch edges x costs g root_node s_low s_high
       max_num_iter verbose =
     (let prizes = map2 (*) x x;
          s_high = (if s_high \<ge> int (length prizes) - 1 then int (length prizes) - 1
                    else s_high);
          re_nodes = wrap_head_tail_bisearch edges prizes costs g root_node s_low s_high
                       max_num_iter verbose;
          proj_w = replicate (length x) 0
      in bind_err (take_nodes x re_nodes) (\<lambda>vals.
           Inr (re_nodes, put_nodes proj_w re_nodes vals)))"

subsection \<open>Observation counter\<close>

text \<open>
  \<^verbatim>\<open>
  def calc_num_observations(B, b, t, K):
      return int(B / K) + (b * t)
  \<close>
\<close>

definition calc_num_observations :: "int \<Rightarrow> int \<Rightarrow> int \<Rightarrow> int \<Rightarrow> py_error + int" where
  "calc_num_observations B b t K =
     (if K = 0 then Inl ZeroDivisionError else Inr (B div K + b * t))"

subsection \<open>Loops\<close>

text \<open>\<^verbatim>\<open>for _ in range(k): body\<close>, the body run \<open>k\<close> times on the loop's variables.\<close>

primrec for_range :: "nat \<Rightarrow> ('s \<Rightarrow> py_error + 's) \<Rightarrow> 's \<Rightarrow> py_error + 's" where
  "for_range 0 body st = Inr st"
| "for_range (Suc k) body st = bind_err (body st) (for_range k body)"

text \<open>
  \<^verbatim>\<open>for i in idx: body\<close> where the body may \<^verbatim>\<open>break\<close>: the body returns whether it left
  the loop.
\<close>

primrec for_break :: "int list \<Rightarrow> (int \<Rightarrow> 's \<Rightarrow> py_error + (bool \<times> 's)) \<Rightarrow> 's \<Rightarrow> py_error + 's" where
  "for_break [] body st = Inr st"
| "for_break (i # idx) body st =
     bind_err (body i st) (\<lambda>(brk, st'). if brk then Inr st' else for_break idx body st')"

subsection \<open>The optimizers' arguments and variables\<close>

text \<open>
  The arguments shared by the three optimizers.  The one-letter parameters of the source
  are \<open>sparsity\<close> (s), \<open>block_size\<close> (B), \<open>mini_block_size\<close> (b), \<open>components\<close> (g),
  \<open>root_node\<close> (root) and \<open>gamma_slack\<close> (gamma).
\<close>

record args =
  x_mat :: matrix
  y_tr :: "real list"
  max_epochs :: int
  lr :: real
  x_star :: "real list"
  x0 :: "real list"
  tol_algo :: real
  edges :: "(int \<times> int) list"
  costs :: "real list"
  sparsity :: int
  block_size :: int
  mini_block_size :: int
  components :: int
  root_node :: int
  gamma_slack :: real
  proj_max_num_iter :: int
  verbose :: int

text \<open>The variables that live across epochs, with the random generator.\<close>

record state =
  x_hat :: "real list"
  num_epochs :: int
  num_iter :: int
  loss_list :: "(int \<times> real) list"
  rng :: rng_state

definition init_state :: "args \<Rightarrow> rng_state \<Rightarrow> state" where
  "init_state a r = \<lparr>x_hat = x0 a, num_epochs = 0, num_iter = 0, loss_list = [], rng = r\<rparr>"

text \<open>
  \<^verbatim>\<open>
  h_low = int(len(x0) / 2)
  h_high = int(h_low * (1. + gamma))
  t_low = int(s)
  t_high = int(s * (1. + gamma))
  \<close>
\<close>

definition h_low :: "args \<Rightarrow> int" where
  "h_low a = int (length (x0 a)) div 2"

definition h_high :: "args \<Rightarrow> int" where
  "h_high a = py_int (of_int (h_low a) * (1 + gamma_slack a))"

definition t_low :: "args \<Rightarrow> int" where
  "t_low a = sparsity a"

definition t_high :: "args \<Rightarrow> int" where
  "t_high a = py_int (of_int (sparsity a) * (1 + gamma_slack a))"

subsection \<open>The update shared by the inner iterations\<close>

text \<open>
  Lines 217-224, 298-305 and 379-386 are the same statements on the point \<open>x\<close> being
  updated (\<^verbatim>\<open>x_hat\<close> in Sto-IHT, \<^verbatim>\<open>x_nil\<close> in the other two):
  \<^verbatim>\<open>
  head_nodes, proj_grad = algo_head_tail_bisearch(
      edges, gradient, costs, g, root, h_low, h_high, proj_max_num_iter, verbose)
  bt = x - lr * proj_grad
  tail_nodes, proj_bt = algo_head_tail_bisearch(
      edges, bt, costs, g, root, t_low, t_high, proj_max_num_iter, verbose)
  x = proj_bt
  \<close>
\<close>

definition head_tail_step :: "proj_oracle \<Rightarrow> args \<Rightarrow> real list \<Rightarrow> real list \<Rightarrow> py_error + real list" where
  "head_tail_step orc a x gradient =
     bind_err (algo_head_tail_bisearch orc (edges a) gradient (costs a) (components a)
                 (root_node a) (h_low a) (h_high a) (proj_max_num_iter a) (verbose a))
       (\<lambda>(head_nodes, proj_grad).
     bind_err (np_sub x (np_scale (lr a) proj_grad)) (\<lambda>bt.
     bind_err (algo_head_tail_bisearch orc (edges a) bt (costs a) (components a)
                 (root_node a) (t_low a) (t_high a) (proj_max_num_iter a) (verbose a))
       (\<lambda>(tail_nodes, proj_bt). Inr proj_bt)))"

subsection \<open>The end of an epoch\<close>

text \<open>
  Lines 225-234, 307-317 and 388-398: the residual norm, the recovery error and the norm
  of the iterate are computed (in an order that differs between the variants, and the
  progress line is printed before or after the tests; neither changes a value), then
  \<^verbatim>\<open>
  if x_hat_norm >= 1e5:  # diverge cases.
      break
  if residual_norm <= tol_algo:
      break
  num_obs = calc_num_observations(B, b, num_iter, K)
  loss_list.append((num_obs, residual_norm))
  \<close>
  with the variant's own arguments \<open>B\<close>, \<open>b\<close>, \<open>K\<close> for the observation counter.  The result
  says whether the loop is left.
\<close>

definition residual_norm :: "args \<Rightarrow> real list \<Rightarrow> py_error + real" where
  "residual_norm a x =
     bind_err (np_dot_mv (x_mat a) x) (\<lambda>xb.
     bind_err (np_sub (y_tr a) xb) (\<lambda>d. Inr (np_norm d)))"

definition epoch_end :: "args \<Rightarrow> int \<Rightarrow> int \<Rightarrow> int \<Rightarrow> state \<Rightarrow> py_error + (bool \<times> state)" where
  "epoch_end a obs_B obs_b obs_K st =
     bind_err (residual_norm a (x_hat st)) (\<lambda>res_norm.
     bind_err (np_sub (x_hat st) (x_star a)) (\<lambda>err.
     let x_err = np_norm err;
         x_hat_norm = np_norm (x_hat st)
     in if x_hat_norm \<ge> 100000 then Inr (True, st)
        else if res_norm \<le> tol_algo a then Inr (True, st)
        else bind_err (calc_num_observations obs_B obs_b (num_iter st) obs_K) (\<lambda>num_obs.
               Inr (False, st\<lparr>loss_list := loss_list st @ [(num_obs, res_norm)]\<rparr>))))"

text \<open>
  What the optimizers return: the loss record, the final recovery error and the number of
  epochs run (the wall-clock run time is not modelled).
\<close>

definition finish :: "args \<Rightarrow> state \<Rightarrow> py_error + ((int \<times> real) list \<times> real \<times> int)" where
  "finish a st =
     bind_err (np_sub (x_hat st) (x_star a)) (\<lambda>err.
       Inr (loss_list st, np_norm err, num_epochs st))"

subsection \<open>Sto-IHT\<close>

text \<open>
  Lines 214-224, one inner iteration:
  \<^verbatim>\<open>
  num_iter += 1
  block = get_batch(B, n)
  gradient = calc_grad(x_mat, y_tr, x_hat, block)
  ... head/tail update of x_hat
  \<close>
\<close>

definition sto_inner :: "proj_oracle \<Rightarrow> args \<Rightarrow> int \<Rightarrow> int \<Rightarrow> state \<Rightarrow> py_error + state" where
  "sto_inner orc a n B st0 =
     (let st = st0\<lparr>num_iter := num_iter st0 + 1\<rparr> in
      bind_err (get_batch B n (rng st)) (\<lambda>(block, r).
      bind_err (calc_grad (x_mat a) (y_tr a) (x_hat st) block) (\<lambda>gradient.
      bind_err (head_tail_step orc a (x_hat st) gradient) (\<lambda>proj_bt.
        Inr (st\<lparr>x_hat := proj_bt, rng := r\<rparr>)))))"

text \<open>Lines 212-236, the body of the epoch loop.\<close>

definition sto_epoch ::
  "proj_oracle \<Rightarrow> args \<Rightarrow> int \<Rightarrow> int \<Rightarrow> int \<Rightarrow> int \<Rightarrow> state \<Rightarrow> py_error + (bool \<times> state)" where
  "sto_epoch orc a n B num_blocks epoch_i st0 =
     (let st = st0\<lparr>num_epochs := num_epochs st0 + 1\<rparr> in
      bind_err (for_range (nat num_blocks) (sto_inner orc a n B) st) (\<lambda>st.
        epoch_end a 0 B num_blocks st))"

text \<open>
  Lines 191-236: the variables when the epoch loop is over.
  \<^verbatim>\<open>
  (n, p) = x_mat.shape
  B = n if n < B else B
  num_blocks = int(n) / int(B)
  \<close>
\<close>

definition sto_iht_run :: "proj_oracle \<Rightarrow> args \<Rightarrow> rng_state \<Rightarrow> py_error + state" where
  "sto_iht_run orc a r =
     (let n = int (nrows (x_mat a));
          B = (if n < block_size a then n else block_size a)
      in if B = 0 then Inl ZeroDivisionError
         else
           let num_blocks = n div B in
           for_break (py_range 0 (max_epochs a)) (sto_epoch orc a n B num_blocks)
             (init_state a r))"

definition algo_graph_sto_iht ::
  "proj_oracle \<Rightarrow> args \<Rightarrow> rng_state \<Rightarrow> py_error + ((int \<times> real) list \<times> real \<times> int)" where
  "algo_graph_sto_iht orc a r = bind_err (sto_iht_run orc a r) (finish a)"

subsection \<open>SVRG-IHT and SCSG-IHT\<close>

text \<open>
  Lines 292-297 and 373-378, the gradient of an inner iteration:
  \<^verbatim>\<open>
  inner_grad_1 = calc_grad(x_mat, y_tr, x_nil, block)
  if epoch_i < 1:
      gradient = inner_grad_1
  else:
      inner_grad_2 = calc_grad(x_mat, y_tr, x_hat, block)
      gradient = inner_grad_1 - inner_grad_2 + outer_grad
  \<close>
\<close>

definition vr_gradient ::
  "args \<Rightarrow> int \<Rightarrow> real list \<Rightarrow> real list \<Rightarrow> real list \<Rightarrow> int list \<Rightarrow> py_error + real list" where
  "vr_gradient a epoch_i xnil xhat outer_grad block =
     bind_err (calc_grad (x_mat a) (y_tr a) xnil block) (\<lambda>inner_grad_1.
       if epoch_i < 1 then Inr inner_grad_1
       else
         bind_err (calc_grad (x_mat a) (y_tr a) xhat block) (\<lambda>inner_grad_2.
         bind_err (np_sub inner_grad_1 inner_grad_2) (\<lambda>d.
           np_add d outer_grad)))"

text \<open>
  Lines 290-305 and 371-386, one inner iteration on \<^verbatim>\<open>x_nil\<close>; the two variants differ in
  the size \<open>bsz\<close> of the block they draw.
\<close>

definition vr_inner ::
  "proj_oracle \<Rightarrow> args \<Rightarrow> int \<Rightarrow> int \<Rightarrow> int \<Rightarrow> real list \<Rightarrow> real list \<times> state
     \<Rightarrow> py_error + (real list \<times> state)" where
  "vr_inner orc a n bsz epoch_i outer_grad xs =
     (let x_nil = fst xs;
          st = (snd xs)\<lparr>num_iter := num_iter (snd xs) + 1\<rparr>
      in bind_err (get_batch bsz n (rng st)) (\<lambda>(block, r).
         bind_err (vr_gradient a epoch_i x_nil (x_hat st) outer_grad block) (\<lambda>gradient.
         bind_err (head_tail_step orc a x_nil gradient) (\<lambda>proj_bt.
           Inr (proj_bt, st\<lparr>rng := r\<rparr>)))))"

text \<open>Lines 286-317, the body of the epoch loop of SVRG-IHT.\<close>

definition svrg_epoch ::
  "proj_oracle \<Rightarrow> args \<Rightarrow> int \<Rightarrow> int \<Rightarrow> int \<Rightarrow> int \<Rightarrow> state \<Rightarrow> py_error + (bool \<times> state)" where
  "svrg_epoch orc a n b num_batches epoch_i st0 =
     (let st = st0\<lparr>num_epochs := num_epochs st0 + 1\<rparr> in
      bind_err (calc_grad (x_mat a) (y_tr a) (x_hat st) (py_range 0 n)) (\<lambda>outer_grad.
      let x_nil = x_hat st in
      bind_err (for_range (nat num_batches) (vr_inner orc a n b epoch_i outer_grad) (x_nil, st))
        (\<lambda>(x_nil, st).
      let st = st\<lparr>x_hat := x_nil\<rparr> in
      epoch_end a n b num_batches st)))"

text \<open>
  Lines 265-317.
  \<^verbatim>\<open>
  (n, p) = x_mat.shape
  b = 1  # inner gradient always based on single data point
  num_batches = int(n) / int(b)
  \<close>
\<close>

definition svrg_iht_run :: "proj_oracle \<Rightarrow> args \<Rightarrow> rng_state \<Rightarrow> py_error + state" where
  "svrg_iht_run orc a r =
     (let n = int (nrows (x_mat a));
          b = 1;
          num_batches = n div b
      in for_break (py_range 0 (max_epochs a)) (svrg_epoch orc a n b num_batches)
           (init_state a r))"

definition algo_graph_svrg_iht ::
  "proj_oracle \<Rightarrow> args \<Rightarrow> rng_state \<Rightarrow> py_error + ((int \<times> real) list \<times> real \<times> int)" where
  "algo_graph_svrg_iht orc a r = bind_err (svrg_iht_run orc a r) (finish a)"

text \<open>
  Lines 366-398, the body of the epoch loop of SCSG-IHT; \<^verbatim>\<open>range(B / b)\<close> raises
  ZeroDivisionError when \<open>b\<close> is 0.
\<close>

definition scsg_epoch ::
  "proj_oracle \<Rightarrow> args \<Rightarrow> int \<Rightarrow> int \<Rightarrow> int \<Rightarrow> int \<Rightarrow> state \<Rightarrow> py_error + (bool \<times> state)" where
  "scsg_epoch orc a n B b epoch_i st0 =
     (let st = st0\<lparr>num_epochs := num_epochs st0 + 1\<rparr> in
      bind_err (get_batch B n (rng st)) (\<lambda>(block, r).
      let st = st\<lparr>rng := r\<rparr> in
      bind_err (calc_grad (x_mat a) (y_tr a) (x_hat st) block) (\<lambda>outer_grad.
      let x_nil = x_hat st in
      if b = 0 then Inl ZeroDivisionError
      else
        bind_err (for_range (nat (B div b)) (vr_inner orc a n b epoch_i outer_grad) (x_nil, st))
          (\<lambda>(x_nil, st).
        let st = st\<lparr>x_hat := x_nil\<rparr> in
        epoch_end a B b (B div b) st))))"

text \<open>
  Lines 346-398.
  \<^verbatim>\<open>
  (n, p) = x_mat.shape
  B = n if n < B else B
  \<close>
\<close>

definition scsg_iht_run :: "proj_oracle \<Rightarrow> args \<Rightarrow> rng_state \<Rightarrow> py_error + state" where
  "scsg_iht_run orc a r =
     (let n = int (nrows (x_mat a));
          B = (if n < block_size a then n else block_size a)
      in for_break (py_range 0 (max_epochs a)) (scsg_epoch orc a n B (mini_block_size a))
           (init_state a r))"

definition algo_graph_scsg_iht ::
  "proj_oracle \<Rightarrow> args \<Rightarrow> rng_state \<Rightarrow> py_error + ((int \<times> real) list \<times> real \<times> int)" where
  "algo_graph_scsg_iht orc a r = bind_err (scsg_iht_run orc a r) (finish a)"

subsection \<open>Vocabulary of the properties\<close>

text \<open>
  The two tests made at the end of an epoch, on the iterate \<open>x\<close> of that moment: the norm
  of the iterate is at least \<open>1e5\<close>, or the residual norm is at most the tolerance.
\<close>

definition terminal :: "args \<Rightarrow> real list \<Rightarrow> bool" where
  "terminal a x \<longleftrightarrow>
     100000 \<le> np_norm x \<or>
     (case residual_norm a x of Inl e \<Rightarrow> False | Inr res \<Rightarrow> res \<le> tol_algo a)"

text \<open>
  What one epoch that ran its \<open>obs_K\<close> inner iterations does to the counters and to the
  loss record, \<open>brk\<close> telling whether the loop was left.
\<close>

definition epoch_result :: "args \<Rightarrow> int \<Rightarrow> int \<Rightarrow> int \<Rightarrow> state \<Rightarrow> bool \<Rightarrow> state \<Rightarrow> bool" where
  "epoch_result a obs_B obs_b obs_K st brk st' \<longleftrightarrow>
     num_epochs st' = num_epochs st + 1 \<and>
     num_iter st' = num_iter st + int (nat obs_K) \<and>
     brk = terminal a (x_hat st') \<and>
     (if brk then loss_list st' = loss_list st
      else obs_K \<noteq> 0 \<and>
           (case residual_norm a (x_hat st') of Inl e \<Rightarrow> False
            | Inr res \<Rightarrow>
                loss_list st' = loss_list st @ [(obs_B div obs_K + obs_b * num_iter st', res)]))"

text \<open>
  How a run whose epochs have \<open>k\<close> inner iterations each can end: it ran between 0 and
  \<open>max_epochs\<close> epochs, every one of them with all its inner iterations; either the last
  epoch ended in a state that passes one of the two tests and was not recorded, or every
  epoch was recorded and the budget is used up.
\<close>

definition run_outcome :: "args \<Rightarrow> nat \<Rightarrow> state \<Rightarrow> bool" where
  "run_outcome a k st \<longleftrightarrow>
     0 \<le> num_epochs st \<and> num_epochs st \<le> max 0 (max_epochs a) \<and>
     num_iter st = num_epochs st * int k \<and>
     (if 0 < num_epochs st \<and> terminal a (x_hat st)
      then int (length (loss_list st)) + 1 = num_epochs st
      else int (length (loss_list st)) = num_epochs st \<and> num_epochs st = max 0 (max_epochs a))"

text \<open>
  The gradient rule of SVRG-IHT and SCSG-IHT in the words of the specification: on the
  first epoch (index 0) the gradient is the raw block gradient at \<open>x_nil\<close>; later it is
  \<open>grad(x_nil, block) - grad(x_hat, block) + outer_grad\<close>.
\<close>

definition vr_rule ::
  "args \<Rightarrow> int \<Rightarrow> real list \<Rightarrow> real list \<Rightarrow> real list \<Rightarrow> int list \<Rightarrow> real list \<Rightarrow> bool" where
  "vr_rule a epoch_i xnil xhat outer_grad block gradient \<longleftrightarrow>
     (if epoch_i = 0 then calc_grad (x_mat a) (y_tr a) xnil block = Inr gradient
      else
        (case calc_grad (x_mat a) (y_tr a) xnil block of
           Inl e \<Rightarrow> False
         | Inr g1 \<Rightarrow>
             (case calc_grad (x_mat a) (y_tr a) xhat block of
                Inl e \<Rightarrow> False
              | Inr g2 \<Rightarrow> gradient = map2 (+) (map2 (-) g1 g2) outer_grad)))"

subsection \<open>Example inputs\<close>

text \<open>
  A signal of two coordinates joined by one edge, of which the oracle always selects the
  first, and a generator whose raw numbers are all 0.  \<open>ex_args\<close> has one measurement and
  starts away from the solution \<open>[1, 0]\<close>; \<open>ex_args3\<close> has three measurements, blocks of
  two, and starts at the solution; \<open>ex_args_edge\<close> starts with an iterate of norm exactly
  \<open>1e5\<close> and a learning rate of 0.
\<close>

definition ex_oracle :: proj_oracle where
  "ex_oracle es prizes cs g rt s_low s_high it vb = [0]"

definition ex_rng :: rng_state where
  "ex_rng = \<lparr>raw = (\<lambda>_. 0), drawn = 0\<rparr>"

definition ex_args :: args where
  "ex_args = \<lparr>x_mat = \<lparr>ncols = 2, rows = [[1, 0]]\<rparr>, y_tr = [1], max_epochs = 2, lr = 1 / 4,
     x_star = [1, 0], x0 = [0, 0], tol_algo = 0, edges = [(0, 1)], costs = [1], sparsity = 1,
     block_size = 1, mini_block_size = 1, components = 1, root_node = - 1, gamma_slack = 1 / 10,
     proj_max_num_iter = 50, verbose = 0\<rparr>"

definition ex_args3 :: args where
  "ex_args3 = \<lparr>x_mat = \<lparr>ncols = 2, rows = [[1, 0], [1, 0], [1, 0]]\<rparr>, y_tr = [1, 1, 1],
     max_epochs = 1, lr = 1 / 4, x_star = [1, 0], x0 = [1, 0], tol_algo = 0, edges = [(0, 1)],
     costs = [1], sparsity = 1, block_size = 2, mini_block_size = 1, components = 1,
     root_node = - 1, gamma_slack = 1 / 10, proj_max_num_iter = 50, verbose = 0\<rparr>"

definition ex_args_edge :: args where
  "ex_args_edge = \<lparr>x_mat = \<lparr>ncols = 2, rows = [[1, 0]]\<rparr>, y_tr = [0], max_epochs = 2, lr = 0,
     x_star = [0, 0], x0 = [100000, 0], tol_algo = 0, edges = [(0, 1)], costs = [1],
     sparsity = 1, block_size = 1, mini_block_size = 1, components = 1, root_node = - 1,
     gamma_slack = 1 / 10, proj_max_num_iter = 50, verbose = 0\<rparr>"

text \<open>
  The variables of the SVRG-IHT and SCSG-IHT runs on \<open>ex_args\<close> after their first and after
  their second epoch.
\<close>

definition ex_svrg_state1 :: state where
  "ex_svrg_state1 = \<lparr>x_hat = [1 / 2, 0], num_epochs = 1, num_iter = 1,
     loss_list = [(2, 1 / 2)], rng = \<lparr>raw = (\<lambda>_. 0), drawn = 1\<rparr>\<rparr>"

definition ex_svrg_state2 :: state where
  "ex_svrg_state2 = \<lparr>x_hat = [3 / 4, 0], num_epochs = 2, num_iter = 2,
     loss_list = [(2, 1 / 2), (3, 1 / 4)], rng = \<lparr>raw = (\<lambda>_. 0), drawn = 2\<rparr>\<rparr>"

definition ex_scsg_state1 :: state where
  "ex_scsg_state1 = \<lparr>x_hat = [1 / 2, 0], num_epochs = 1, num_iter = 1,
     loss_list = [(2, 1 / 2)], rng = \<lparr>raw = (\<lambda>_. 0), drawn = 2\<rparr>\<rparr>"

definition ex_scsg_state2 :: state where
  "ex_scsg_state2 = \<lparr>x_hat = [3 / 4, 0], num_epochs = 2, num_iter = 2,
     loss_list = [(2, 1 / 2), (3, 1 / 4)], rng = \<lparr>raw = (\<lambda>_. 0), drawn = 4\<rparr>\<rparr>"

section \<open>Properties\<close>

subsection \<open>Exceptions and loops\<close>

lemma bind_err_Inl [simp]: "bind_err (Inl e) f = Inl e"
  by (simp add: bind_err_def)

lemma bind_err_Inr [simp]: "bind_err (Inr v) f = f v"
  by (simp add: bind_err_def)

lemma bind_err_eq_Inr:
  "bind_err m f = Inr w \<longleftrightarrow> (\<exists>v. m = Inr v \<and> f v = Inr w)"
  by (cases m) simp_all

subsection \<open>The gradient evaluator computes the block gradient\<close>

lemma norm_index_less: "valid_index len i \<Longrightarrow> norm_index len i < len"
  by (auto simp: valid_index_def norm_index_def)

lemma dot_map_map: "dot (map f xs) (map g xs) = (\<Sum>x\<leftarrow>xs. f x * g x)"
  by (induction xs) (simp_all add: dot_def)

lemma dot_upt:
  assumes "length v = p"
  shows "dot (map f [0..<p]) v = (\<Sum>k\<leftarrow>[0..<p]. f k * v ! k)"
proof -
  have "v = map (\<lambda>k. v ! k) [0..<p]"
    using map_nth [of v] assms by simp
  then have "dot (map f [0..<p]) v = dot (map f [0..<p]) (map (\<lambda>k. v ! k) [0..<p])"
    by simp
  then show ?thesis
    by (simp only: dot_map_map)
qed

lemma map2_same: "map2 f (map g xs) (map h xs) = map (\<lambda>x. f (g x) (h x)) xs"
  by (induction xs) simp_all

lemma select_cols_transpose:
  assumes "list_all (valid_index (nrows X)) block"
  shows "select_cols (np_transpose X) block =
           Inr \<lparr>ncols = length block,
                rows = map (\<lambda>j. map (\<lambda>i. block_entry X i j) block) [0..<ncols X]\<rparr>"
proof -
  have "map (\<lambda>i. map (\<lambda>r. r ! j) (rows X) ! norm_index (nrows X) i) block
          = map (\<lambda>i. block_entry X i j) block" for j
  proof (rule map_cong [OF refl])
    fix i assume "i \<in> set block"
    with assms have "norm_index (nrows X) i < length (rows X)"
      by (auto simp: list_all_iff nrows_def dest: norm_index_less)
    then show "map (\<lambda>r. r ! j) (rows X) ! norm_index (nrows X) i = block_entry X i j"
      by (simp add: block_entry_def)
  qed
  with assms show ?thesis
    by (simp add: select_cols_def np_transpose_def o_def)
qed

lemma select_rows_block:
  assumes "list_all (valid_index (nrows X)) block"
  shows "select_rows X block =
           Inr \<lparr>ncols = ncols X, rows = map (\<lambda>i. rows X ! norm_index (nrows X) i) block\<rparr>"
  using assms by (simp add: select_rows_def take_idx_def nrows_def)

lemma calc_grad_index_error:
  "\<not> list_all (valid_index (nrows X)) block \<Longrightarrow> calc_grad X y x block = Inl IndexError"
  by (simp add: calc_grad_def Let_def select_cols_def np_transpose_def)

lemma calc_grad_index_error_y:
  assumes "list_all (valid_index (nrows X)) block" "\<not> list_all (valid_index (length y)) block"
  shows "calc_grad X y x block = Inl IndexError"
  using assms
  by (simp add: calc_grad_def Let_def select_cols_transpose select_rows_block np_dot_mm_def
      nrows_def take_idx_def)

lemma calc_grad_value_error:
  assumes "list_all (valid_index (nrows X)) block" "list_all (valid_index (length y)) block"
    "length x \<noteq> ncols X"
  shows "calc_grad X y x block = Inl ValueError"
  using assms
  by (simp add: calc_grad_def Let_def select_cols_transpose select_rows_block np_dot_mm_def
      np_dot_mv_def nrows_def take_idx_def)

lemma calc_grad_value:
  assumes "list_all (valid_index (nrows X)) block" "list_all (valid_index (length y)) block"
    "length x = ncols X"
  shows "calc_grad X y x block = Inr (block_gradient X y x block)"
proof -
  define xt_b where "xt_b = \<lparr>ncols = length block,
                rows = map (\<lambda>j. map (\<lambda>i. block_entry X i j) block) [0..<ncols X]\<rparr>"
  define x_b where
    "x_b = \<lparr>ncols = ncols X, rows = map (\<lambda>i. rows X ! norm_index (nrows X) i) block\<rparr>"
  define xtx where "xtx = \<lparr>ncols = ncols X,
     rows = map (\<lambda>j. map (\<lambda>k. \<Sum>i\<leftarrow>block. block_entry X i j * block_entry X i k) [0..<ncols X])
              [0..<ncols X]\<rparr>"
  define y_b where "y_b = map (\<lambda>i. y ! norm_index (length y) i) block"
  define xty where
    "xty = map (\<lambda>j. \<Sum>i\<leftarrow>block. block_entry X i j * y ! norm_index (length y) i) [0..<ncols X]"
  define xtx_x where "xtx_x = map (\<lambda>j. \<Sum>k\<leftarrow>[0..<ncols X].
      (\<Sum>i\<leftarrow>block. block_entry X i j * block_entry X i k) * x ! k) [0..<ncols X]"
  have 1: "select_cols (np_transpose X) block = Inr xt_b"
    using assms(1) by (simp add: select_cols_transpose xt_b_def)
  have 2: "select_rows X block = Inr x_b"
    using assms(1) by (simp add: select_rows_block x_b_def)
  have col: "map (\<lambda>q. q ! k) (rows x_b) = map (\<lambda>i. block_entry X i k) block" for k
    by (simp add: x_b_def block_entry_def o_def)
  have 3: "np_dot_mm xt_b x_b = Inr xtx"
    unfolding np_dot_mm_def col
    by (simp add: xt_b_def x_b_def xtx_def nrows_def dot_map_map o_def)
  have 4: "take_idx y block = Inr y_b"
    using assms(2) by (simp add: take_idx_def y_b_def)
  have 5: "np_dot_mv xt_b y_b = Inr xty"
    by (simp add: np_dot_mv_def xt_b_def y_b_def xty_def dot_map_map o_def)
  have 6: "np_dot_mv xtx x = Inr xtx_x"
    using assms(3) by (simp add: np_dot_mv_def xtx_def xtx_x_def dot_upt o_def)
  have 7: "np_sub xty xtx_x = Inr (map (\<lambda>j.
       (\<Sum>i\<leftarrow>block. block_entry X i j * y ! norm_index (length y) i)
       - (\<Sum>k\<leftarrow>[0..<ncols X].
           (\<Sum>i\<leftarrow>block. block_entry X i j * block_entry X i k) * x ! k)) [0..<ncols X])"
    by (simp add: np_sub_def xty_def xtx_x_def map2_same)
  show ?thesis
    by (simp add: calc_grad_def Let_def 1 2 3 4 5 6 7 np_scale_def block_gradient_def o_def)
qed

text \<open>
  C4.  For every design matrix \<open>X\<close>, measurement vector \<open>y\<close>, iterate \<open>x\<close> and index block
  whose indices select rows of \<open>X\<close> and entries of \<open>y\<close>, and with \<open>x\<close> as long as \<open>X\<close> has
  columns, \<open>calc_grad\<close> returns exactly \<open>-2 (X\<^sub>B\<^sup>T y\<^sub>B - X\<^sub>B\<^sup>T X\<^sub>B x)\<close>; an index out of range
  raises IndexError and an iterate of another length ValueError.  The result is a function
  of the four arguments alone: the evaluator reads nothing else and changes nothing, so
  equal inputs give equal outputs.
\<close>

theorem calc_grad_block_gradient:
  "calc_grad X y x block =
     (if list_all (valid_index (nrows X)) block \<and> list_all (valid_index (length y)) block
      then if length x = ncols X then Inr (block_gradient X y x block) else Inl ValueError
      else Inl IndexError)"
  using calc_grad_index_error [of X block y x] calc_grad_index_error_y [of X block y x]
    calc_grad_value_error [of X block y x] calc_grad_value [of X block y x]
  by auto

theorem calc_grad_block_gradient_witness:
  "calc_grad \<lparr>ncols = 2, rows = [[1, 2], [3, 4]]\<rparr> [5, 6] [1, 1] [1] = Inr [6, 8]"
  using calc_grad_block_gradient [of "\<lparr>ncols = 2, rows = [[1, 2], [3, 4]]\<rparr>" "[5, 6]" "[1, 1]" "[1]"]
  by (simp add: block_gradient_def block_entry_def nrows_def valid_index_def norm_index_def
      upt_rec)

subsection \<open>The batch sampler\<close>

lemma randint_range:
  assumes "low < high"
  shows "\<exists>i. low \<le> i \<and> i < high \<and> randint low high r = Inr (i, r\<lparr>drawn := Suc (drawn r)\<rparr>)"
proof -
  have "0 < nat (high - low)" using assms by simp
  then have "raw r (drawn r) mod nat (high - low) < nat (high - low)"
    by (rule mod_less_divisor)
  then have "low + int (raw r (drawn r) mod nat (high - low)) < high"
    by linarith
  with assms show ?thesis
    by (simp add: randint_def)
qed

lemma randint_reachable:
  assumes "low \<le> i" "i < high"
  shows "randint low high \<lparr>raw = (\<lambda>_. nat (i - low)), drawn = d\<rparr>
           = Inr (i, \<lparr>raw = (\<lambda>_. nat (i - low)), drawn = Suc d\<rparr>)"
  using assms by (simp add: randint_def)

lemma get_batch_draw:
  assumes "batch_size \<noteq> 0" "randint 0 (n div batch_size) r = Inr (i, r')"
  shows "get_batch batch_size n r = Inr ([batch_size * i..batch_size * (i + 1) - 1], r')"
  using assms by (simp add: get_batch_def py_range_def)

lemma blocks_concat:
  assumes "1 \<le> k"
  shows "concat (map (\<lambda>i. [k * i..k * (i + 1) - 1]) [0..int m - 1]) = [0..k * int m - 1]"
proof (induction m)
  case 0
  then show ?case by simp
next
  case (Suc m)
  have "[0..int (Suc m) - 1] = [0..int m - 1] @ [int m]"
    using upto_rec2 [of 0 "int m"] by simp
  moreover have "[0..k * int (Suc m) - 1] = [0..k * int m - 1] @ [k * int m..k * (int m + 1) - 1]"
  proof -
    have "0 \<le> k * int m" using assms by simp
    moreover have "k * int m \<le> k * int (Suc m) - 1 + 1" using assms by (simp add: algebra_simps)
    ultimately show ?thesis
      using upto_split1 [of 0 "k * int m" "k * int (Suc m) - 1"] assms
      by (simp add: algebra_simps)
  qed
  ultimately show ?case
    using Suc.IH by simp
qed

lemma blocks_disjoint:
  assumes "1 \<le> k" "i \<noteq> j"
  shows "set [k * i..k * (i + 1) - 1] \<inter> set [k * j..k * (j + 1) - 1] = {}"
proof -
  consider "i + 1 \<le> j" | "j + 1 \<le> i" using assms(2) by linarith
  then show ?thesis
  proof cases
    case 1
    then have "k * (i + 1) \<le> k * j" using assms(1) by (simp add: mult_left_mono)
    then show ?thesis by auto
  next
    case 2
    then have "k * (j + 1) \<le> k * i" using assms(1) by (simp add: mult_left_mono)
    then show ?thesis by auto
  qed
qed

text \<open>
  C7.  When the batch size \<open>k \<ge> 1\<close> divides the sample count \<open>n \<ge> 1\<close>, \<open>get_batch\<close> returns
  the block \<open>[k i, k (i + 1))\<close> whose index \<open>i\<close> is the number that \<open>randint 0 (n div k)\<close>
  drew from \<open>{0, ..., n div k - 1}\<close>; these \<open>n div k\<close> blocks, in order, make up \<open>[0, n)\<close>,
  two different ones share no index, every one of them is returned for some state of the
  generator, and the only state that changes is the generator, by one draw.  (That the
  draw is uniform is the contract of \<open>randint\<close>; the sampler passes the draw on as the
  block index unchanged.)
\<close>

theorem get_batch_partition_block:
  assumes "k dvd n" and "1 \<le> k" and "1 \<le> n"
  shows "(\<exists>i. 0 \<le> i \<and> i < n div k
            \<and> randint 0 (n div k) r = Inr (i, r\<lparr>drawn := Suc (drawn r)\<rparr>)
            \<and> get_batch k n r = Inr ([k * i..k * (i + 1) - 1], r\<lparr>drawn := Suc (drawn r)\<rparr>))
       \<and> concat (map (\<lambda>i. [k * i..k * (i + 1) - 1]) [0..n div k - 1]) = [0..n - 1]
       \<and> (\<forall>i j. i \<noteq> j \<longrightarrow> set [k * i..k * (i + 1) - 1] \<inter> set [k * j..k * (j + 1) - 1] = {})
       \<and> (\<forall>i. 0 \<le> i \<and> i < n div k \<longrightarrow>
            (\<exists>r0. get_batch k n r0 = Inr ([k * i..k * (i + 1) - 1], r0\<lparr>drawn := Suc (drawn r0)\<rparr>)))"
proof (intro conjI allI impI)
  have pos: "0 < n div k"
    using assms by (simp add: pos_imp_zdiv_pos_iff zdvd_imp_le)
  then obtain i where i: "0 \<le> i" "i < n div k"
      "randint 0 (n div k) r = Inr (i, r\<lparr>drawn := Suc (drawn r)\<rparr>)"
    using randint_range [of 0 "n div k" r] by blast
  with assms(2) show "\<exists>i. 0 \<le> i \<and> i < n div k
            \<and> randint 0 (n div k) r = Inr (i, r\<lparr>drawn := Suc (drawn r)\<rparr>)
            \<and> get_batch k n r = Inr ([k * i..k * (i + 1) - 1], r\<lparr>drawn := Suc (drawn r)\<rparr>)"
    using get_batch_draw [of k n r i] by auto
next
  have "0 \<le> n div k" using assms by (simp add: pos_imp_zdiv_nonneg_iff)
  then have "int (nat (n div k)) = n div k" by simp
  moreover have "k * (n div k) = n" using assms(1) by simp
  ultimately show "concat (map (\<lambda>i. [k * i..k * (i + 1) - 1]) [0..n div k - 1]) = [0..n - 1]"
    using blocks_concat [OF assms(2), of "nat (n div k)"] by simp
next
  fix i j :: int assume "i \<noteq> j"
  with assms(2) show "set [k * i..k * (i + 1) - 1] \<inter> set [k * j..k * (j + 1) - 1] = {}"
    by (rule blocks_disjoint)
next
  fix i assume "0 \<le> i \<and> i < n div k"
  then have "randint 0 (n div k) \<lparr>raw = (\<lambda>_. nat (i - 0)), drawn = 0\<rparr>
           = Inr (i, \<lparr>raw = (\<lambda>_. nat (i - 0)), drawn = Suc 0\<rparr>)"
    by (intro randint_reachable) simp_all
  with assms(2) have "get_batch k n \<lparr>raw = (\<lambda>_. nat (i - 0)), drawn = 0\<rparr>
      = Inr ([k * i..k * (i + 1) - 1], \<lparr>raw = (\<lambda>_. nat (i - 0)), drawn = Suc 0\<rparr>)"
    using get_batch_draw [of k n _ i] by auto
  then show "\<exists>r0. get_batch k n r0 = Inr ([k * i..k * (i + 1) - 1], r0\<lparr>drawn := Suc (drawn r0)\<rparr>)"
    by (intro exI [of _ "\<lparr>raw = (\<lambda>_. nat (i - 0)), drawn = 0\<rparr>"]) simp
qed

theorem get_batch_partition_block_witness:
  "(2::int) dvd 4 \<and>
   get_batch 2 4 \<lparr>raw = (\<lambda>_. 1), drawn = 0\<rparr> = Inr ([2, 3], \<lparr>raw = (\<lambda>_. 1), drawn = 1\<rparr>) \<and>
   concat (map (\<lambda>i. [2 * i..2 * (i + 1) - 1]) [0..4 div 2 - 1]) = [0, 1, 2, (3::int)]"
  using get_batch_partition_block [of 2 4 "\<lparr>raw = (\<lambda>_. 1), drawn = 0\<rparr>"]
  by (simp add: get_batch_def randint_def py_range_def upto_rec1)

text \<open>
  C10.  For every call of \<open>get_batch\<close> with \<open>1 \<le> batch_size \<le> n\<close> the call returns a
  block, every index of the block lies in \<open>[0, n)\<close>, in fact below
  \<open>batch_size * (n div batch_size)\<close>, so that the last partial segment of the data is never
  selected when \<open>batch_size\<close> does not divide \<open>n\<close>, and the gradient evaluator on a design
  matrix with \<open>n\<close> rows and a measurement vector with \<open>n\<close> entries never raises IndexError
  on that block.
\<close>

theorem get_batch_in_bounds:
  assumes "1 \<le> bs" and "bs \<le> n"
  shows "\<exists>blk r'. get_batch bs n r = Inr (blk, r')
           \<and> (\<forall>i\<in>set blk. 0 \<le> i \<and> i < bs * (n div bs))
           \<and> bs * (n div bs) \<le> n
           \<and> (\<forall>X y x. nrows X = nat n \<and> length y = nat n \<longrightarrow>
                 calc_grad X y x blk \<noteq> Inl IndexError)"
proof -
  have pos: "0 < n div bs"
    using assms by (simp add: pos_imp_zdiv_pos_iff)
  then obtain i where i: "0 \<le> i" "i < n div bs"
      "randint 0 (n div bs) r = Inr (i, r\<lparr>drawn := Suc (drawn r)\<rparr>)"
    using randint_range [of 0 "n div bs" r] by blast
  define blk where "blk = [bs * i..bs * (i + 1) - 1]"
  have gb: "get_batch bs n r = Inr (blk, r\<lparr>drawn := Suc (drawn r)\<rparr>)"
    using get_batch_draw [of bs n r i] i(3) assms(1) by (simp add: blk_def)
  have le: "bs * (n div bs) \<le> n"
    using mult_div_mod_eq [of bs n] pos_mod_sign [of bs n] assms(1) by linarith
  have "bs * (i + 1) \<le> bs * (n div bs)"
    using i(2) assms(1) by (intro mult_left_mono) simp_all
  moreover have "0 \<le> bs * i" using i(1) assms(1) by simp
  ultimately have mem: "\<forall>j\<in>set blk. 0 \<le> j \<and> j < bs * (n div bs)"
    by (auto simp: blk_def)
  have "calc_grad X y x blk \<noteq> Inl IndexError"
    if "nrows X = nat n \<and> length y = nat n" for X y x
  proof -
    have "list_all (valid_index (nat n)) blk"
      using mem le by (auto simp: list_all_iff valid_index_def)
    then have v: "list_all (valid_index (nrows X)) blk" "list_all (valid_index (length y)) blk"
      using that by simp_all
    show ?thesis
    proof (cases "length x = ncols X")
      case True
      then show ?thesis using calc_grad_value [OF v] by simp
    next
      case False
      then show ?thesis using calc_grad_value_error [OF v] by simp
    qed
  qed
  with gb mem le show ?thesis by blast
qed

theorem get_batch_in_bounds_witness:
  "(1::int) \<le> 2 \<and> (2::int) \<le> 5 \<and>
   get_batch 2 5 \<lparr>raw = (\<lambda>_. 7), drawn = 0\<rparr> = Inr ([2, 3], \<lparr>raw = (\<lambda>_. 7), drawn = 1\<rparr>) \<and>
   calc_grad \<lparr>ncols = 1, rows = [[1], [1], [1], [1], [1]]\<rparr> [0, 0, 0, 0, 0] [1] [2, 3] \<noteq> Inl IndexError"
  using get_batch_in_bounds [of 2 5 "\<lparr>raw = (\<lambda>_. 7), drawn = 0\<rparr>"]
  by (simp add: get_batch_def randint_def py_range_def upto_rec1 nrows_def)
subsection \<open>The projection-oracle wrapper\<close>

lemma put_nodes_nth:
  assumes "j < length w" "\<forall>i\<in>set nodes. i < length w"
  shows "put_nodes w nodes (map (\<lambda>i. x ! i) nodes) ! j = (if j \<in> set nodes then x ! j else w ! j)"
  using assms
proof (induction nodes arbitrary: w)
  case Nil
  then show ?case by (simp add: put_nodes_def)
next
  case (Cons n nodes)
  have "put_nodes w (n # nodes) (map (\<lambda>i. x ! i) (n # nodes))
          = put_nodes (w[n := x ! n]) nodes (map (\<lambda>i. x ! i) nodes)"
    by (simp add: put_nodes_def)
  moreover have "put_nodes (w[n := x ! n]) nodes (map (\<lambda>i. x ! i) nodes) ! j
      = (if j \<in> set nodes then x ! j else w[n := x ! n] ! j)"
    using Cons.prems by (intro Cons.IH) simp_all
  ultimately show ?case
    using Cons.prems by (auto simp: nth_list_update)
qed

lemma put_nodes_zeros:
  assumes "\<forall>i\<in>set nodes. i < length x"
  shows "put_nodes (replicate (length x) 0) nodes (map (\<lambda>i. x ! i) nodes)
           = map (\<lambda>j. if j \<in> set nodes then x ! j else 0) [0..<length x]"
proof (rule nth_equalityI)
  show "length (put_nodes (replicate (length x) 0) nodes (map (\<lambda>i. x ! i) nodes))
          = length (map (\<lambda>j. if j \<in> set nodes then x ! j else 0) [0..<length x])"
    unfolding put_nodes_def
    by (induction nodes rule: rev_induct) simp_all
next
  fix j assume "j < length (put_nodes (replicate (length x) 0) nodes (map (\<lambda>i. x ! i) nodes))"
  then have j: "j < length x"
    unfolding put_nodes_def by (induction nodes rule: rev_induct) simp_all
  then show "put_nodes (replicate (length x) 0) nodes (map (\<lambda>i. x ! i) nodes) ! j
          = map (\<lambda>j. if j \<in> set nodes then x ! j else 0) [0..<length x] ! j"
    using put_nodes_nth [of j "replicate (length x) 0" nodes x] assms by simp
qed

lemma map2_mult_self: "map2 (*) x x = map (\<lambda>e. e * e) (x :: real list)"
  by (induction x) simp_all
text \<open>
  C3.  For every call of the wrapper on a vector \<open>x\<close> of length \<open>p\<close>, with any oracle: the
  oracle is called on the elementwise square of \<open>x\<close> as prizes and on the upper bound
  \<open>min s_high (p - 1)\<close>, the other arguments unchanged; when the support it returns indexes
  \<open>x\<close>, the wrapper returns that support with the vector equal to \<open>x\<close> on the support and
  zero elsewhere (IndexError otherwise), so that a support that is all of \<open>{0, ..., p - 1}\<close>
  gives \<open>x\<close> back unchanged.
\<close>

theorem algo_head_tail_bisearch_projection:
  assumes "supp = orc es (map (\<lambda>e. e * e) x) cs g rt s_low (min s_high (int (length x) - 1)) it vb"
  shows "algo_head_tail_bisearch orc es x cs g rt s_low s_high it vb =
           (if \<forall>i\<in>set supp. i < length x
            then Inr (supp, map (\<lambda>j. if j \<in> set supp then x ! j else 0) [0..<length x])
            else Inl IndexError)
       \<and> (set supp = {0..<length x} \<longrightarrow>
            algo_head_tail_bisearch orc es x cs g rt s_low s_high it vb = Inr (supp, x))"
proof -
  have m: "(if int (length x) - 1 \<le> s_high then int (length x) - 1 else s_high)
        = min s_high (int (length x) - 1)"
    by (simp add: min_def)
  have char: "algo_head_tail_bisearch orc es x cs g rt s_low s_high it vb =
           (if \<forall>i\<in>set supp. i < length x
            then Inr (supp, map (\<lambda>j. if j \<in> set supp then x ! j else 0) [0..<length x])
            else Inl IndexError)"
    by (simp add: algo_head_tail_bisearch_def Let_def map2_mult_self take_nodes_def m
        list_all_iff put_nodes_zeros assms)
  have "map (\<lambda>j. if j \<in> set supp then x ! j else 0) [0..<length x] = x"
    if "set supp = {0..<length x}"
  proof -
    have "map (\<lambda>j. if j \<in> set supp then x ! j else 0) [0..<length x]
            = map (\<lambda>j. x ! j) [0..<length x]"
      using that by (intro map_cong) simp_all
    then show ?thesis by (simp add: map_nth)
  qed
  with char show ?thesis by auto
qed

theorem algo_head_tail_bisearch_projection_witness:
  "algo_head_tail_bisearch
     (\<lambda>es prizes cs g rt s_low s_high it vb. if prizes = [4, 9, 1] \<and> s_high = 2 then [1] else [])
     [] [2, 3, 1] [] 1 (- 1) 1 7 50 0 = Inr ([1], [0, 3, 0])"
  using algo_head_tail_bisearch_projection
    [of "[1]" "\<lambda>es prizes cs g rt s_low s_high it vb. if prizes = [4, 9, 1] \<and> s_high = 2 then [1] else []"
        "[]" "[2, 3, 1]" "[]" 1 "- 1" 1 7 50 0]
  by (simp add: upt_rec)

subsection \<open>Loops and epochs\<close>

lemma for_range_rule:
  assumes "for_range k body st = Inr st'" and "P st"
    and "\<And>s s'. P s \<Longrightarrow> body s = Inr s' \<Longrightarrow> P s'"
  shows "P st'"
  using assms(1,2)
proof (induction k arbitrary: st)
  case 0
  then show ?case by simp
next
  case (Suc k)
  from Suc.prems(1) obtain s1 where s1: "body st = Inr s1" "for_range k body s1 = Inr st'"
    by (auto simp: bind_err_eq_Inr)
  from assms(3) [OF Suc.prems(2) s1(1)] have "P s1" .
  with s1(2) show ?case by (rule Suc.IH)
qed

lemma for_range_count:
  assumes "for_range k body st = Inr st'"
    and "\<And>s s'. body s = Inr s' \<Longrightarrow> f s' = f s + (1::int)"
  shows "f st' = f st + int k"
  using assms(1)
proof (induction k arbitrary: st)
  case 0
  then show ?case by simp
next
  case (Suc k)
  from Suc.prems obtain s1 where s1: "body st = Inr s1" "for_range k body s1 = Inr st'"
    by (auto simp: bind_err_eq_Inr)
  from Suc.IH [OF s1(2)] assms(2) [OF s1(1)] show ?case by simp
qed

lemma for_break_rule:
  assumes "for_break idx body st = Inr st'" and "P st"
    and "\<And>i s s'. P s \<Longrightarrow> body i s = Inr (False, s') \<Longrightarrow> P s'"
    and "\<And>i s s'. P s \<Longrightarrow> body i s = Inr (True, s') \<Longrightarrow> Q s'"
    and "\<And>s. P s \<Longrightarrow> Q s"
  shows "Q st'"
  using assms(1,2)
proof (induction idx arbitrary: st)
  case Nil
  then show ?case using assms(5) by simp
next
  case (Cons i idx)
  from Cons.prems(1) obtain brk s1 where s1: "body i st = Inr (brk, s1)"
      "(if brk then Inr s1 else for_break idx body s1) = Inr st'"
    by (auto simp: bind_err_eq_Inr)
  show ?case
  proof (cases brk)
    case True
    with s1 have "body i st = Inr (True, st')" by simp
    with Cons.prems(2) show ?thesis by (rule assms(4))
  next
    case False
    with s1 have "body i st = Inr (False, s1)" "for_break idx body s1 = Inr st'" by simp_all
    with Cons.prems(2) assms(3) show ?thesis using Cons.IH by blast
  qed
qed

lemma for_break_epochs:
  assumes step: "\<And>i s brk s'. body i s = Inr (brk, s') \<Longrightarrow> epoch_result a oB ob oK s brk s'"
    and run: "for_break idx body st = Inr st'"
  shows "\<exists>m. m \<le> length idx \<and> num_epochs st' = num_epochs st + int m
           \<and> num_iter st' = num_iter st + int m * int (nat oK)
           \<and> (if 0 < m \<and> terminal a (x_hat st')
               then length (loss_list st') + 1 = length (loss_list st) + m
               else length (loss_list st') = length (loss_list st) + m \<and> m = length idx)"
  using run
proof (induction idx arbitrary: st)
  case Nil
  then show ?case by (intro exI [of _ 0]) simp
next
  case (Cons i idx)
  from Cons.prems obtain brk s1 where s1: "body i st = Inr (brk, s1)"
      "(if brk then Inr s1 else for_break idx body s1) = Inr st'"
    by (auto simp: bind_err_eq_Inr)
  note er = step [OF s1(1), unfolded epoch_result_def]
  show ?case
  proof (cases brk)
    case True
    with s1 er show ?thesis by (intro exI [of _ 1]) auto
  next
    case False
    with s1 have run': "for_break idx body s1 = Inr st'" by simp
    from False er have len: "length (loss_list s1) = length (loss_list st) + 1"
      by (auto split: sum.splits)
    from Cons.IH [OF run'] obtain m where m: "m \<le> length idx"
      "num_epochs st' = num_epochs s1 + int m"
      "num_iter st' = num_iter s1 + int m * int (nat oK)"
      "if 0 < m \<and> terminal a (x_hat st')
       then length (loss_list st') + 1 = length (loss_list s1) + m
       else length (loss_list st') = length (loss_list s1) + m \<and> m = length idx"
      by blast
    have nt: "\<not> terminal a (x_hat st')" if "m = 0"
    proof -
      from that m(4) have "idx = []" by simp
      with run' have "st' = s1" by simp
      with False er show ?thesis by simp
    qed
    show ?thesis
    proof (intro exI [of _ "Suc m"] conjI)
      show "Suc m \<le> length (i # idx)" using m(1) by simp
      show "num_epochs st' = num_epochs st + int (Suc m)" using m(2) er by simp
      show "num_iter st' = num_iter st + int (Suc m) * int (nat oK)"
        using m(3) er by (simp add: algebra_simps)
      show "if 0 < Suc m \<and> terminal a (x_hat st')
            then length (loss_list st') + 1 = length (loss_list st) + Suc m
            else length (loss_list st') = length (loss_list st) + Suc m \<and> Suc m = length (i # idx)"
        using m(4) len nt by (cases "m = 0") (auto split: if_splits)
    qed
  qed
qed

lemma for_break_sorted:
  assumes step: "\<And>i s brk s'. body i s = Inr (brk, s') \<Longrightarrow> epoch_result a oB ob oK s brk s'"
    and run: "for_break idx body st = Inr st'"
    and pos: "1 \<le> ob" "0 \<le> oK"
    and init: "sorted_wrt (<) (map fst (loss_list st))"
      "\<forall>v\<in>set (map fst (loss_list st)). v \<le> oB div oK + ob * num_iter st"
  shows "sorted_wrt (<) (map fst (loss_list st'))"
proof -
  let ?P = "\<lambda>s. sorted_wrt (<) (map fst (loss_list s))
     \<and> (\<forall>v\<in>set (map fst (loss_list s)). v \<le> oB div oK + ob * num_iter s)"
  have "?P st'"
  proof (rule for_break_rule [OF run, of ?P ?P])
    show "?P st" using init by simp
  next
    fix i s s' assume P: "?P s" and b: "body i s = Inr (False, s')"
    from step [OF b] obtain res where er: "num_iter s' = num_iter s + int (nat oK)" "oK \<noteq> 0"
      "loss_list s' = loss_list s @ [(oB div oK + ob * num_iter s', res)]"
      by (auto simp: epoch_result_def split: sum.splits)
    from er(1,2) pos(2) have "num_iter s < num_iter s'" by simp
    with pos(1) have lt: "ob * num_iter s < ob * num_iter s'" by simp
    with P er(3) show "?P s'"
      by (force simp: sorted_wrt_append)
  next
    fix i s s' assume P: "?P s" and b: "body i s = Inr (True, s')"
    from step [OF b] have er: "num_iter s' = num_iter s + int (nat oK)" "loss_list s' = loss_list s"
      by (auto simp: epoch_result_def)
    from er(1) have "num_iter s \<le> num_iter s'" by simp
    with pos(1) have "ob * num_iter s \<le> ob * num_iter s'" by (simp add: mult_left_mono)
    with P er(2) show "?P s'" by force
  qed simp
  then show ?thesis by simp
qed

subsection \<open>Inner iterations\<close>

lemma get_batch_Inr:
  assumes "get_batch bs n r = Inr (blk, r')"
  shows "bs \<noteq> 0 \<and> 0 < n div bs \<and> r' = r\<lparr>drawn := Suc (drawn r)\<rparr>
       \<and> (\<exists>i. 0 \<le> i \<and> i < n div bs \<and> blk = [bs * i..bs * (i + 1) - 1])"
proof -
  from assms have bs: "bs \<noteq> 0"
    by (auto simp: get_batch_def split: if_splits)
  with assms obtain i where i: "randint 0 (n div bs) r = Inr (i, r')"
      "blk = [bs * i..bs * (i + 1) - 1]"
    by (auto simp: get_batch_def Let_def bind_err_eq_Inr py_range_def)
  from i(1) have pos: "0 < n div bs"
    by (auto simp: randint_def split: if_splits)
  from randint_range [OF pos, of r] i(1)
  have "0 \<le> i \<and> i < n div bs \<and> r' = r\<lparr>drawn := Suc (drawn r)\<rparr>" by auto
  with bs pos i(2) show ?thesis by blast
qed

lemma head_tail_step_Inr:
  assumes "head_tail_step orc a x gradient = Inr x'"
  shows "\<exists>head_nodes proj_grad bt tail_nodes.
      algo_head_tail_bisearch orc (edges a) gradient (costs a) (components a) (root_node a)
        (h_low a) (h_high a) (proj_max_num_iter a) (verbose a) = Inr (head_nodes, proj_grad)
    \<and> np_sub x (np_scale (lr a) proj_grad) = Inr bt
    \<and> algo_head_tail_bisearch orc (edges a) bt (costs a) (components a) (root_node a)
        (t_low a) (t_high a) (proj_max_num_iter a) (verbose a) = Inr (tail_nodes, x')"
  using assms unfolding head_tail_step_def
  by (auto simp: bind_err_eq_Inr)

lemma sto_inner_Inr:
  assumes "sto_inner orc a n B st = Inr st'"
  shows "\<exists>block gradient.
      get_batch B n (rng st) = Inr (block, rng st')
    \<and> calc_grad (x_mat a) (y_tr a) (x_hat st) block = Inr gradient
    \<and> head_tail_step orc a (x_hat st) gradient = Inr (x_hat st')
    \<and> num_iter st' = num_iter st + 1 \<and> num_epochs st' = num_epochs st
    \<and> loss_list st' = loss_list st"
  using assms unfolding sto_inner_def Let_def
  by (auto simp: bind_err_eq_Inr)

lemma vr_inner_Inr:
  assumes "vr_inner orc a n bsz i og (xn, st) = Inr (xn', st')"
  shows "\<exists>block gradient.
      get_batch bsz n (rng st) = Inr (block, rng st')
    \<and> vr_gradient a i xn (x_hat st) og block = Inr gradient
    \<and> head_tail_step orc a xn gradient = Inr xn'
    \<and> num_iter st' = num_iter st + 1 \<and> num_epochs st' = num_epochs st
    \<and> loss_list st' = loss_list st \<and> x_hat st' = x_hat st"
  using assms unfolding vr_inner_def Let_def
  by (auto simp: bind_err_eq_Inr)

lemma sto_inner_loop:
  assumes "for_range k (sto_inner orc a n B) st = Inr st'"
  shows "num_iter st' = num_iter st + int k \<and> num_epochs st' = num_epochs st
       \<and> loss_list st' = loss_list st \<and> drawn (rng st') = drawn (rng st) + k"
proof -
  have 1: "num_iter st' = num_iter st + int k"
    using assms by (rule for_range_count) (auto dest: sto_inner_Inr)
  have 2: "num_epochs st' = num_epochs st \<and> loss_list st' = loss_list st"
    using assms
    by (rule for_range_rule [where P = "\<lambda>s. num_epochs s = num_epochs st \<and> loss_list s = loss_list st"])
      (auto dest: sto_inner_Inr)
  have "int (drawn (rng st')) = int (drawn (rng st)) + int k"
    using assms
  proof (rule for_range_count)
    fix s s' assume "sto_inner orc a n B s = Inr s'"
    then obtain block where "get_batch B n (rng s) = Inr (block, rng s')"
      by (auto dest: sto_inner_Inr)
    from get_batch_Inr [OF this] have "rng s' = (rng s)\<lparr>drawn := Suc (drawn (rng s))\<rparr>" by simp
    then have "drawn (rng s') = Suc (drawn (rng s))" by simp
    then show "int (drawn (rng s')) = int (drawn (rng s)) + 1" by simp
  qed
  with 1 2 show ?thesis by simp
qed

lemma vr_inner_loop:
  assumes "for_range k (vr_inner orc a n bsz i og) xs = Inr xs'"
  shows "num_iter (snd xs') = num_iter (snd xs) + int k \<and> num_epochs (snd xs') = num_epochs (snd xs)
       \<and> loss_list (snd xs') = loss_list (snd xs) \<and> x_hat (snd xs') = x_hat (snd xs)
       \<and> drawn (rng (snd xs')) = drawn (rng (snd xs)) + k"
proof -
  have step: "\<exists>block gradient.
      get_batch bsz n (rng (snd s)) = Inr (block, rng (snd s'))
    \<and> num_iter (snd s') = num_iter (snd s) + 1 \<and> num_epochs (snd s') = num_epochs (snd s)
    \<and> loss_list (snd s') = loss_list (snd s) \<and> x_hat (snd s') = x_hat (snd s)"
    if "vr_inner orc a n bsz i og s = Inr s'" for s s'
    using vr_inner_Inr [of orc a n bsz i og "fst s" "snd s" "fst s'" "snd s'"] that by auto
  have 1: "num_iter (snd xs') = num_iter (snd xs) + int k"
    using assms by (rule for_range_count) (auto dest: step)
  have 2: "num_epochs (snd xs') = num_epochs (snd xs) \<and> loss_list (snd xs') = loss_list (snd xs)
       \<and> x_hat (snd xs') = x_hat (snd xs)"
    using assms
    by (rule for_range_rule [where P = "\<lambda>s. num_epochs (snd s) = num_epochs (snd xs)
        \<and> loss_list (snd s) = loss_list (snd xs) \<and> x_hat (snd s) = x_hat (snd xs)"])
      (auto dest: step)
  have "int (drawn (rng (snd xs'))) = int (drawn (rng (snd xs))) + int k"
    using assms
  proof (rule for_range_count)
    fix s s' assume "vr_inner orc a n bsz i og s = Inr s'"
    then obtain block where "get_batch bsz n (rng (snd s)) = Inr (block, rng (snd s'))"
      by (auto dest: step)
    from get_batch_Inr [OF this]
    have "rng (snd s') = (rng (snd s))\<lparr>drawn := Suc (drawn (rng (snd s)))\<rparr>" by simp
    then have "drawn (rng (snd s')) = Suc (drawn (rng (snd s)))" by simp
    then show "int (drawn (rng (snd s'))) = int (drawn (rng (snd s))) + 1" by simp
  qed
  with 1 2 show ?thesis by simp
qed

subsection \<open>Epochs\<close>

lemma epoch_end_Inr:
  assumes "epoch_end a oB ob oK st = Inr (brk, st')"
  shows "x_hat st' = x_hat st \<and> num_epochs st' = num_epochs st \<and> num_iter st' = num_iter st
       \<and> rng st' = rng st \<and> brk = terminal a (x_hat st)
       \<and> (if brk then loss_list st' = loss_list st
           else oK \<noteq> 0 \<and>
             (case residual_norm a (x_hat st) of Inl e \<Rightarrow> False
              | Inr res \<Rightarrow> loss_list st' = loss_list st @ [(oB div oK + ob * num_iter st, res)]))"
  using assms unfolding epoch_end_def Let_def terminal_def calc_num_observations_def
  by (auto simp: bind_err_eq_Inr split: if_splits)

lemma sto_epoch_result:
  assumes "sto_epoch orc a n B K i st = Inr (brk, st')"
  shows "epoch_result a 0 B K st brk st' \<and> drawn (rng st') = drawn (rng st) + nat K"
proof -
  from assms obtain s1 where s1:
      "for_range (nat K) (sto_inner orc a n B) (st\<lparr>num_epochs := num_epochs st + 1\<rparr>) = Inr s1"
      "epoch_end a 0 B K s1 = Inr (brk, st')"
    unfolding sto_epoch_def Let_def by (auto simp: bind_err_eq_Inr)
  from sto_inner_loop [OF s1(1)] epoch_end_Inr [OF s1(2)] show ?thesis
    unfolding epoch_result_def by (auto split: sum.splits)
qed

lemma svrg_epoch_result:
  assumes "svrg_epoch orc a n b K i st = Inr (brk, st')"
  shows "epoch_result a n b K st brk st' \<and> drawn (rng st') = drawn (rng st) + nat K"
proof -
  from assms obtain og xn s1 where s1:
      "calc_grad (x_mat a) (y_tr a) (x_hat st) (py_range 0 n) = Inr og"
      "for_range (nat K) (vr_inner orc a n b i og)
         (x_hat st, st\<lparr>num_epochs := num_epochs st + 1\<rparr>) = Inr (xn, s1)"
      "epoch_end a n b K (s1\<lparr>x_hat := xn\<rparr>) = Inr (brk, st')"
    unfolding svrg_epoch_def Let_def by (auto simp: bind_err_eq_Inr)
  from vr_inner_loop [OF s1(2)] epoch_end_Inr [OF s1(3)] show ?thesis
    unfolding epoch_result_def by (auto split: sum.splits)
qed

lemma scsg_epoch_result:
  assumes "scsg_epoch orc a n B b i st = Inr (brk, st')"
  shows "epoch_result a B b (B div b) st brk st'
       \<and> drawn (rng st') = drawn (rng st) + 1 + nat (B div b) \<and> B \<noteq> 0 \<and> 0 < n div B"
proof -
  from assms obtain block r og xn s1 where s1:
      "get_batch B n (rng st) = Inr (block, r)"
      "calc_grad (x_mat a) (y_tr a) (x_hat st) block = Inr og"
      "b \<noteq> 0"
      "for_range (nat (B div b)) (vr_inner orc a n b i og)
         (x_hat st, st\<lparr>num_epochs := num_epochs st + 1, rng := r\<rparr>) = Inr (xn, s1)"
      "epoch_end a B b (B div b) (s1\<lparr>x_hat := xn\<rparr>) = Inr (brk, st')"
    unfolding scsg_epoch_def Let_def by (auto simp: bind_err_eq_Inr split: if_splits)
  from get_batch_Inr [OF s1(1)] have "drawn r = Suc (drawn (rng st))" "B \<noteq> 0" "0 < n div B"
    by simp_all
  with vr_inner_loop [OF s1(4)] epoch_end_Inr [OF s1(5)] show ?thesis
    unfolding epoch_result_def by (auto split: sum.splits)
qed

subsection \<open>The example runs\<close>

lemma np_norm_pair [simp]: "np_norm [c, 0] = \<bar>c\<bar>"
  by (simp add: np_norm_def)

lemma calc_grad_cases:
  "calc_grad X y x block =
     (if list_all (valid_index (nrows X)) block \<and> list_all (valid_index (length y)) block
      then if length x = ncols X then Inr (block_gradient X y x block) else Inl ValueError
      else Inl IndexError)"
  using calc_grad_index_error [of X block y x] calc_grad_index_error_y [of X block y x]
    calc_grad_value_error [of X block y x] calc_grad_value [of X block y x]
  by auto

lemma ex_calc_grad:
  "calc_grad \<lparr>ncols = 2, rows = [[1, 0]]\<rparr> [y] [c, d] [0] = Inr [- 2 * (y - c), 0]"
  by (simp add: calc_grad_cases block_gradient_def block_entry_def nrows_def valid_index_def
      norm_index_def upt_rec)

lemma ex_head_tail_step:
  "head_tail_step ex_oracle a [c, 0] [u, 0] = Inr [c - lr a * u, 0]"
  by (simp add: head_tail_step_def algo_head_tail_bisearch_def take_nodes_def put_nodes_def
      ex_oracle_def np_sub_def np_scale_def Let_def)

lemma ex_get_batch:
  "get_batch 1 1 \<lparr>raw = (\<lambda>_. 0), drawn = d\<rparr> = Inr ([0], \<lparr>raw = (\<lambda>_. 0), drawn = Suc d\<rparr>)"
  by (simp add: get_batch_def randint_def py_range_def)

lemma ex_sto_inner:
  assumes "x_mat a = \<lparr>ncols = 2, rows = [[1, 0]]\<rparr>" "y_tr a = [y]"
  shows "sto_inner ex_oracle a 1 1
      \<lparr>x_hat = [c, 0], num_epochs = e, num_iter = t, loss_list = l,
        rng = \<lparr>raw = (\<lambda>_. 0), drawn = d\<rparr>\<rparr>
   = Inr \<lparr>x_hat = [c - lr a * (- 2 * (y - c)), 0], num_epochs = e, num_iter = t + 1, loss_list = l,
      rng = \<lparr>raw = (\<lambda>_. 0), drawn = Suc d\<rparr>\<rparr>"
  by (simp add: sto_inner_def assms ex_get_batch ex_calc_grad ex_head_tail_step)

lemma ex_residual:
  assumes "x_mat a = \<lparr>ncols = 2, rows = [[1, 0]]\<rparr>" "y_tr a = [y]"
  shows "residual_norm a [c, 0] = Inr \<bar>y - c\<bar>"
  by (simp add: residual_norm_def assms np_dot_mv_def dot_def np_sub_def np_norm_def)

lemma ex_sto_run:
  "sto_iht_run ex_oracle ex_args ex_rng
   = Inr \<lparr>x_hat = [3 / 4, 0], num_epochs = 2, num_iter = 2, loss_list = [(1, 1 / 2), (2, 1 / 4)],
      rng = \<lparr>raw = (\<lambda>_. 0), drawn = 2\<rparr>\<rparr>"
proof -
  have a: "x_mat ex_args = \<lparr>ncols = 2, rows = [[1, 0]]\<rparr>" "y_tr ex_args = [1]"
    "max_epochs ex_args = 2" "x_star ex_args = [1, 0]" "x0 ex_args = [0, 0]"
    "tol_algo ex_args = 0" "block_size ex_args = 1" "lr ex_args = 1 / 4"
    by (simp_all add: ex_args_def)
  show ?thesis
    by (simp add: sto_iht_run_def sto_epoch_def ex_sto_inner [OF a(1,2)] ex_residual [OF a(1,2)]
        a ex_rng_def np_sub_def epoch_end_def calc_num_observations_def init_state_def Let_def
        nrows_def py_range_def upto_rec1)
qed

lemma ex_edge_sto_run:
  "sto_iht_run ex_oracle ex_args_edge ex_rng
   = Inr \<lparr>x_hat = [100000, 0], num_epochs = 1, num_iter = 1, loss_list = [],
      rng = \<lparr>raw = (\<lambda>_. 0), drawn = 1\<rparr>\<rparr>"
proof -
  have a: "x_mat ex_args_edge = \<lparr>ncols = 2, rows = [[1, 0]]\<rparr>" "y_tr ex_args_edge = [0]"
    "max_epochs ex_args_edge = 2" "x_star ex_args_edge = [0, 0]" "x0 ex_args_edge = [100000, 0]"
    "tol_algo ex_args_edge = 0" "block_size ex_args_edge = 1" "lr ex_args_edge = 0"
    by (simp_all add: ex_args_edge_def)
  show ?thesis
    by (simp add: sto_iht_run_def sto_epoch_def ex_sto_inner [OF a(1,2)] ex_residual [OF a(1,2)]
        a ex_rng_def np_sub_def epoch_end_def calc_num_observations_def init_state_def Let_def
        nrows_def py_range_def upto_rec1)
qed

lemma ex3_sto_run:
  "sto_iht_run ex_oracle ex_args3 ex_rng
   = Inr \<lparr>x_hat = [1, 0], num_epochs = 1, num_iter = 1, loss_list = [],
      rng = \<lparr>raw = (\<lambda>_. 0), drawn = 1\<rparr>\<rparr>"
proof -
  have a: "x_mat ex_args3 = \<lparr>ncols = 2, rows = [[1, 0], [1, 0], [1, 0]]\<rparr>" "y_tr ex_args3 = [1, 1, 1]"
    "max_epochs ex_args3 = 1" "x_star ex_args3 = [1, 0]" "x0 ex_args3 = [1, 0]"
    "tol_algo ex_args3 = 0" "block_size ex_args3 = 2" "lr ex_args3 = 1 / 4"
    by (simp_all add: ex_args3_def)
  have gb: "get_batch 2 3 \<lparr>raw = (\<lambda>_. 0), drawn = 0\<rparr> = Inr ([0, 1], \<lparr>raw = (\<lambda>_. 0), drawn = 1\<rparr>)"
    by (simp add: get_batch_def randint_def py_range_def upto_rec1)
  have cg: "calc_grad \<lparr>ncols = 2, rows = [[1, 0], [1, 0], [1, 0]]\<rparr> [1, 1, 1] [1, 0] [0, 1] = Inr [0, 0]"
    by (simp add: calc_grad_cases block_gradient_def block_entry_def nrows_def valid_index_def
      norm_index_def upt_rec)
  have inner: "sto_inner ex_oracle ex_args3 3 2
      \<lparr>x_hat = [1, 0], num_epochs = 1, num_iter = 0, loss_list = [],
        rng = \<lparr>raw = (\<lambda>_. 0), drawn = 0\<rparr>\<rparr>
   = Inr \<lparr>x_hat = [1, 0], num_epochs = 1, num_iter = 1, loss_list = [],
      rng = \<lparr>raw = (\<lambda>_. 0), drawn = 1\<rparr>\<rparr>"
    by (simp add: sto_inner_def a gb cg ex_head_tail_step)
  have res: "residual_norm ex_args3 [1, 0] = Inr 0"
    by (simp add: residual_norm_def a np_dot_mv_def dot_def np_sub_def np_norm_def)
  show ?thesis
    by (simp add: sto_iht_run_def sto_epoch_def inner res
        a ex_rng_def np_sub_def epoch_end_def calc_num_observations_def init_state_def Let_def
        nrows_def py_range_def upto_rec1)
qed

lemma ex_vr_inner:
  assumes "x_mat a = \<lparr>ncols = 2, rows = [[1, 0]]\<rparr>" "y_tr a = [y]"
  shows "vr_inner ex_oracle a 1 1 i [o1, 0]
      ([c, 0], \<lparr>x_hat = [h, 0], num_epochs = e, num_iter = t, loss_list = l,
        rng = \<lparr>raw = (\<lambda>_. 0), drawn = d\<rparr>\<rparr>)
   = Inr ([c - lr a * (if i < 1 then - 2 * (y - c) else - 2 * (y - c) - (- 2 * (y - h)) + o1), 0],
      \<lparr>x_hat = [h, 0], num_epochs = e, num_iter = t + 1, loss_list = l,
      rng = \<lparr>raw = (\<lambda>_. 0), drawn = Suc d\<rparr>\<rparr>)"
  by (simp add: vr_inner_def vr_gradient_def assms ex_get_batch ex_calc_grad ex_head_tail_step
      np_sub_def np_add_def)

lemma ex_svrg_run:
  "svrg_iht_run ex_oracle ex_args ex_rng
   = Inr \<lparr>x_hat = [3 / 4, 0], num_epochs = 2, num_iter = 2, loss_list = [(2, 1 / 2), (3, 1 / 4)],
      rng = \<lparr>raw = (\<lambda>_. 0), drawn = 2\<rparr>\<rparr>"
proof -
  have a: "x_mat ex_args = \<lparr>ncols = 2, rows = [[1, 0]]\<rparr>" "y_tr ex_args = [1]"
    "max_epochs ex_args = 2" "x_star ex_args = [1, 0]" "x0 ex_args = [0, 0]"
    "tol_algo ex_args = 0" "block_size ex_args = 1" "lr ex_args = 1 / 4"
    "mini_block_size ex_args = 1"
    by (simp_all add: ex_args_def)
  show ?thesis
    by (simp add: svrg_iht_run_def svrg_epoch_def ex_vr_inner [OF a(1,2)] ex_residual [OF a(1,2)]
        ex_calc_grad
        a ex_rng_def np_sub_def epoch_end_def calc_num_observations_def init_state_def Let_def
        nrows_def py_range_def upto_rec1)
qed

lemma ex_scsg_run:
  "scsg_iht_run ex_oracle ex_args ex_rng
   = Inr \<lparr>x_hat = [3 / 4, 0], num_epochs = 2, num_iter = 2, loss_list = [(2, 1 / 2), (3, 1 / 4)],
      rng = \<lparr>raw = (\<lambda>_. 0), drawn = 4\<rparr>\<rparr>"
proof -
  have a: "x_mat ex_args = \<lparr>ncols = 2, rows = [[1, 0]]\<rparr>" "y_tr ex_args = [1]"
    "max_epochs ex_args = 2" "x_star ex_args = [1, 0]" "x0 ex_args = [0, 0]"
    "tol_algo ex_args = 0" "block_size ex_args = 1" "lr ex_args = 1 / 4"
    "mini_block_size ex_args = 1"
    by (simp_all add: ex_args_def)
  show ?thesis
    by (simp add: scsg_iht_run_def scsg_epoch_def ex_vr_inner [OF a(1,2)] ex_residual [OF a(1,2)]
        ex_calc_grad ex_get_batch
        a ex_rng_def np_sub_def epoch_end_def calc_num_observations_def init_state_def Let_def
        nrows_def py_range_def upto_rec1)
qed

subsection \<open>Runs\<close>

lemma length_py_range: "length (py_range 0 m) = nat m"
  by (simp add: py_range_def)

lemma for_break_observations:
  assumes step: "\<And>i s brk s'. body i s = Inr (brk, s') \<Longrightarrow> epoch_result a oB ob oK s brk s'"
    and run: "for_break idx body st = Inr st'"
    and init: "loss_list st = []" "num_iter st = 0"
  shows "\<forall>j<length (loss_list st').
           fst (loss_list st' ! j) = oB div oK + ob * ((int j + 1) * int (nat oK))"
proof -
  let ?Q = "\<lambda>s. \<forall>j<length (loss_list s).
           fst (loss_list s ! j) = oB div oK + ob * ((int j + 1) * int (nat oK))"
  let ?P = "\<lambda>s. num_iter s = int (length (loss_list s)) * int (nat oK) \<and> ?Q s"
  show "?Q st'"
  proof (rule for_break_rule [OF run, of ?P ?Q])
    show "?P st" using init by simp
  next
    fix i s s' assume P: "?P s" and b: "body i s = Inr (False, s')"
    from step [OF b] obtain res where er: "num_iter s' = num_iter s + int (nat oK)"
      "loss_list s' = loss_list s @ [(oB div oK + ob * num_iter s', res)]"
      by (auto simp: epoch_result_def split: sum.splits)
    from P er(1) have n': "num_iter s' = (int (length (loss_list s)) + 1) * int (nat oK)"
      by (simp add: algebra_simps)
    have "fst (loss_list s' ! j) = oB div oK + ob * ((int j + 1) * int (nat oK))"
      if "j < length (loss_list s')" for j
    proof (cases "j < length (loss_list s)")
      case True
      with P er(2) show ?thesis by (simp add: nth_append)
    next
      case False
      with that er(2) have "j = length (loss_list s)" by simp
      with er(2) n' show ?thesis by (simp add: nth_append)
    qed
    with n' er(2) show "?P s'" by simp
  next
    fix i s s' assume P: "?P s" and b: "body i s = Inr (True, s')"
    from step [OF b] have "loss_list s' = loss_list s"
      by (auto simp: epoch_result_def)
    with P show "?Q s'" by simp
  qed simp
qed

lemma for_break_outcome:
  assumes step: "\<And>i s brk s'. body i s = Inr (brk, s') \<Longrightarrow> epoch_result a oB ob oK s brk s'"
    and run: "for_break (py_range 0 (max_epochs a)) body (init_state a r) = Inr st"
  shows "run_outcome a (nat oK) st"
proof -
  have "\<exists>m. m \<le> length (py_range 0 (max_epochs a))
      \<and> num_epochs st = num_epochs (init_state a r) + int m
      \<and> num_iter st = num_iter (init_state a r) + int m * int (nat oK)
      \<and> (if 0 < m \<and> terminal a (x_hat st)
          then length (loss_list st) + 1 = length (loss_list (init_state a r)) + m
          else length (loss_list st) = length (loss_list (init_state a r)) + m
               \<and> m = length (py_range 0 (max_epochs a)))"
  proof (rule for_break_epochs [where body = body and oB = oB and ob = ob])
    show "for_break (py_range 0 (max_epochs a)) body (init_state a r) = Inr st"
      by (rule run)
  qed (rule step)
  then obtain m where
    m: "m \<le> length (py_range 0 (max_epochs a))"
      "num_epochs st = num_epochs (init_state a r) + int m"
      "num_iter st = num_iter (init_state a r) + int m * int (nat oK)"
      "if 0 < m \<and> terminal a (x_hat st)
       then length (loss_list st) + 1 = length (loss_list (init_state a r)) + m
       else length (loss_list st) = length (loss_list (init_state a r)) + m
            \<and> m = length (py_range 0 (max_epochs a))"
    by blast
  have e: "num_epochs st = int m" "num_iter st = int m * int (nat oK)"
    using m(2,3) by (simp_all add: init_state_def)
  have le: "int m \<le> max 0 (max_epochs a)"
    using m(1) by (simp add: length_py_range)
  show ?thesis
  proof (cases "0 < m \<and> terminal a (x_hat st)")
    case True
    with m(4) have "int (length (loss_list st)) + 1 = int m"
      by (simp add: init_state_def)
    with True e le show ?thesis by (simp add: run_outcome_def)
  next
    case False
    with m(4) have "length (loss_list st) = m" "m = nat (max_epochs a)"
      by (simp_all add: init_state_def length_py_range)
    with False e le show ?thesis by (auto simp: run_outcome_def)
  qed
qed

lemma finish_Inr:
  assumes "bind_err run (finish a) = Inr (losses, x_err, epochs)"
  shows "\<exists>st. run = Inr st \<and> losses = loss_list st \<and> epochs = num_epochs st"
  using assms by (auto simp: bind_err_eq_Inr finish_def)

lemma sto_run_unfold:
  assumes "sto_iht_run orc a r = Inr st"
    and "n = int (nrows (x_mat a))" and "B = (if n < block_size a then n else block_size a)"
  shows "B \<noteq> 0 \<and>
    for_break (py_range 0 (max_epochs a)) (sto_epoch orc a n B (n div B)) (init_state a r) = Inr st"
  using assms unfolding sto_iht_run_def Let_def by (auto split: if_splits)

lemma scsg_epoch_never:
  assumes "B \<le> 0" "0 \<le> n"
  shows "scsg_epoch orc a n B b i s \<noteq> Inr (brk, s')"
proof
  assume "scsg_epoch orc a n B b i s = Inr (brk, s')"
  from scsg_epoch_result [OF this] have "B \<noteq> 0" "0 < n div B" by simp_all
  with assms have "B < 0" by simp
  with assms(2) have "n div B \<le> 0"
    by (simp add: div_nonneg_neg_le0)
  with \<open>0 < n div B\<close> show False by simp
qed

text \<open>
  C8.  For every variant and every run that returns, the \<open>num_observations\<close> values of the
  returned loss record are strictly increasing: entry \<open>j\<close> (from 0) is
  \<open>B div K + b * t\<close> with the variant's fixed \<open>B\<close>, \<open>b\<close>, \<open>K\<close> and the cumulative counter
  \<open>t = (j + 1) * K\<close> of inner iterations, where \<open>b \<ge> 1\<close> (for Sto-IHT \<open>b\<close> is the block
  size, for SVRG-IHT it is 1, for SCSG-IHT the mini-block size).
\<close>

theorem num_observations_strictly_increasing:
  assumes "n = int (nrows (x_mat a))"
    and "B = (if n < block_size a then n else block_size a)"
    and "b = mini_block_size a"
  shows "(1 \<le> block_size a \<and> algo_graph_sto_iht orc a r = Inr (losses, x_err, epochs)
      \<longrightarrow> sorted_wrt (<) (map fst losses)
        \<and> (\<forall>j<length losses. fst (losses ! j)
              = 0 div (n div B) + B * ((int j + 1) * int (nat (n div B)))))
   \<and> (algo_graph_svrg_iht orc a r = Inr (losses, x_err, epochs)
      \<longrightarrow> sorted_wrt (<) (map fst losses)
        \<and> (\<forall>j<length losses. fst (losses ! j) = n div n + 1 * ((int j + 1) * int (nat n))))
   \<and> (1 \<le> mini_block_size a \<and> algo_graph_scsg_iht orc a r = Inr (losses, x_err, epochs)
      \<longrightarrow> sorted_wrt (<) (map fst losses)
        \<and> (\<forall>j<length losses. fst (losses ! j)
              = B div (B div b) + b * ((int j + 1) * int (nat (B div b)))))"
proof (intro conjI impI)
  have n0: "0 \<le> n" by (simp add: assms(1))
  {
    assume h: "1 \<le> block_size a \<and> algo_graph_sto_iht orc a r = Inr (losses, x_err, epochs)"
    then obtain st where st: "sto_iht_run orc a r = Inr st" "losses = loss_list st"
      unfolding algo_graph_sto_iht_def by (auto dest: finish_Inr)
    from sto_run_unfold [OF st(1) assms(1,2)] have B0: "B \<noteq> 0"
      and run: "for_break (py_range 0 (max_epochs a)) (sto_epoch orc a n B (n div B))
                  (init_state a r) = Inr st"
      by simp_all
    from h B0 n0 have B1: "1 \<le> B" by (auto simp: assms(2) split: if_splits)
    then have K: "0 \<le> n div B" using n0 by (simp add: pos_imp_zdiv_nonneg_iff)
    have step: "epoch_result a 0 B (n div B) s brk s'"
      if "sto_epoch orc a n B (n div B) i s = Inr (brk, s')" for i s brk s'
      using sto_epoch_result [OF that] by simp
    have "sorted_wrt (<) (map fst (loss_list st))"
      by (rule for_break_sorted [of "sto_epoch orc a n B (n div B)" a 0 B "n div B", OF _ run B1 K])
        (simp_all add: step init_state_def)
    with st(2) show "sorted_wrt (<) (map fst losses)" by simp
    have "\<forall>j<length (loss_list st). fst (loss_list st ! j)
              = 0 div (n div B) + B * ((int j + 1) * int (nat (n div B)))"
      by (rule for_break_observations [of "sto_epoch orc a n B (n div B)" a 0 B "n div B", OF _ run])
        (simp_all add: step init_state_def)
    with st(2) show "\<forall>j<length losses. fst (losses ! j)
              = 0 div (n div B) + B * ((int j + 1) * int (nat (n div B)))" by simp
  }
  {
    assume h: "algo_graph_svrg_iht orc a r = Inr (losses, x_err, epochs)"
    then obtain st where st: "svrg_iht_run orc a r = Inr st" "losses = loss_list st"
      unfolding algo_graph_svrg_iht_def by (auto dest: finish_Inr)
    from st(1) have run: "for_break (py_range 0 (max_epochs a)) (svrg_epoch orc a n 1 n)
                  (init_state a r) = Inr st"
      by (simp add: svrg_iht_run_def assms(1) Let_def)
    have step: "epoch_result a n 1 n s brk s'"
      if "svrg_epoch orc a n 1 n i s = Inr (brk, s')" for i s brk s'
      using svrg_epoch_result [OF that] by simp
    have "sorted_wrt (<) (map fst (loss_list st))"
      by (rule for_break_sorted [of "svrg_epoch orc a n 1 n" a n 1 n, OF _ run _ n0])
        (simp_all add: step init_state_def)
    with st(2) show "sorted_wrt (<) (map fst losses)" by simp
    have "\<forall>j<length (loss_list st). fst (loss_list st ! j)
              = n div n + 1 * ((int j + 1) * int (nat n))"
      by (rule for_break_observations [of "svrg_epoch orc a n 1 n" a n 1 n, OF _ run])
        (simp_all add: step init_state_def)
    with st(2) show "\<forall>j<length losses. fst (losses ! j)
              = n div n + 1 * ((int j + 1) * int (nat n))" by simp
  }
  {
    assume h: "1 \<le> mini_block_size a \<and> algo_graph_scsg_iht orc a r = Inr (losses, x_err, epochs)"
    then obtain st where st: "scsg_iht_run orc a r = Inr st" "losses = loss_list st"
      unfolding algo_graph_scsg_iht_def by (auto dest: finish_Inr)
    from st(1) have run: "for_break (py_range 0 (max_epochs a)) (scsg_epoch orc a n B b)
                  (init_state a r) = Inr st"
      unfolding scsg_iht_run_def Let_def assms by (auto split: if_splits)
    from h have b1: "1 \<le> b" by (simp add: assms(3))
    have step: "epoch_result a B b (B div b) s brk s'"
      if "scsg_epoch orc a n B b i s = Inr (brk, s')" for i s brk s'
      using scsg_epoch_result [OF that] by simp
    have "\<forall>j<length (loss_list st). fst (loss_list st ! j)
              = B div (B div b) + b * ((int j + 1) * int (nat (B div b)))"
      by (rule for_break_observations [of "scsg_epoch orc a n B b" a B b "B div b", OF _ run])
        (simp_all add: step init_state_def)
    with st(2) show "\<forall>j<length losses. fst (losses ! j)
              = B div (B div b) + b * ((int j + 1) * int (nat (B div b)))" by simp
    have "sorted_wrt (<) (map fst (loss_list st))"
    proof (cases "0 < B")
      case True
      with b1 have K: "0 \<le> B div b"
        by (simp add: pos_imp_zdiv_nonneg_iff)
      show ?thesis
        by (rule for_break_sorted [of "scsg_epoch orc a n B b" a B b "B div b", OF _ run b1 K])
          (simp_all add: step init_state_def)
    next
      case False
      then have "B \<le> 0" by simp
      from scsg_epoch_never [OF this n0]
      have never: "\<And>i s brk s'. scsg_epoch orc a n B b i s = Inr (brk, s')
          \<Longrightarrow> epoch_result a 0 1 0 s brk s'"
        by blast
      show ?thesis
      proof (rule for_break_sorted [of "scsg_epoch orc a n B b" a 0 1 0, OF _ run])
        show "epoch_result a 0 1 0 s brk s'"
          if "scsg_epoch orc a n B b i s = Inr (brk, s')" for i s brk s'
          using that by (rule never)
      qed (simp_all add: init_state_def)
    qed
    with st(2) show "sorted_wrt (<) (map fst losses)" by simp
  }
qed

theorem num_observations_strictly_increasing_witness:
  "algo_graph_sto_iht ex_oracle ex_args ex_rng = Inr ([(1, 1 / 2), (2, 1 / 4)], 1 / 4, 2)
   \<and> algo_graph_svrg_iht ex_oracle ex_args ex_rng = Inr ([(2, 1 / 2), (3, 1 / 4)], 1 / 4, 2)
   \<and> algo_graph_scsg_iht ex_oracle ex_args ex_rng = Inr ([(2, 1 / 2), (3, 1 / 4)], 1 / 4, 2)
   \<and> 1 \<le> block_size ex_args \<and> 1 \<le> mini_block_size ex_args
   \<and> sorted_wrt (<) (map fst [(1 :: int, 1 / 2 :: real), (2, 1 / 4)])
   \<and> sorted_wrt (<) (map fst [(2 :: int, 1 / 2 :: real), (3, 1 / 4)])"
proof -
  have xs: "x_star ex_args = [1, 0]" "block_size ex_args = 1" "mini_block_size ex_args = 1"
    by (simp_all add: ex_args_def)
  have 1: "algo_graph_sto_iht ex_oracle ex_args ex_rng = Inr ([(1, 1 / 2), (2, 1 / 4)], 1 / 4, 2)"
    by (simp add: algo_graph_sto_iht_def ex_sto_run finish_def np_sub_def xs)
  have 2: "algo_graph_svrg_iht ex_oracle ex_args ex_rng = Inr ([(2, 1 / 2), (3, 1 / 4)], 1 / 4, 2)"
    by (simp add: algo_graph_svrg_iht_def ex_svrg_run finish_def np_sub_def xs)
  have 3: "algo_graph_scsg_iht ex_oracle ex_args ex_rng = Inr ([(2, 1 / 2), (3, 1 / 4)], 1 / 4, 2)"
    by (simp add: algo_graph_scsg_iht_def ex_scsg_run finish_def np_sub_def xs)
  from num_observations_strictly_increasing
    [OF refl refl refl, of ex_args ex_oracle ex_rng "[(1, 1 / 2), (2, 1 / 4)]" "1 / 4" 2]
    num_observations_strictly_increasing
    [OF refl refl refl, of ex_args ex_oracle ex_rng "[(2, 1 / 2), (3, 1 / 4)]" "1 / 4" 2]
    1 2 3 xs
  show ?thesis by simp
qed

subsection \<open>How a run ends\<close>

text \<open>
  C6, as the code has it.  For every variant the two tests are made once per epoch, on the
  iterate left by the epoch's inner iterations: the loop is left exactly when the norm of
  that iterate is at least \<open>1e5\<close> (the source tests \<open>>=\<close>, so a norm equal to the
  threshold stops the run too) or the residual norm is at most the tolerance.  A run that
  returns has therefore run every one of its epochs to the end of its inner loop, and it
  either stopped at the first epoch whose final iterate passes one of the tests, or it
  recorded every epoch and used up \<open>max_epochs\<close>.
\<close>

theorem run_stops_at_first_terminal_epoch:
  assumes "n = int (nrows (x_mat a))"
    and "B = (if n < block_size a then n else block_size a)"
    and "b = mini_block_size a"
  shows "(sto_epoch orc a n B (n div B) i s = Inr (brk, s')
            \<longrightarrow> brk = terminal a (x_hat s') \<and> num_iter s' = num_iter s + int (nat (n div B)))
       \<and> (svrg_epoch orc a n 1 n i s = Inr (brk, s')
            \<longrightarrow> brk = terminal a (x_hat s') \<and> num_iter s' = num_iter s + int (nat n))
       \<and> (scsg_epoch orc a n B b i s = Inr (brk, s')
            \<longrightarrow> brk = terminal a (x_hat s') \<and> num_iter s' = num_iter s + int (nat (B div b)))
       \<and> (sto_iht_run orc a r = Inr st \<longrightarrow> run_outcome a (nat (n div B)) st)
       \<and> (svrg_iht_run orc a r = Inr st \<longrightarrow> run_outcome a (nat n) st)
       \<and> (scsg_iht_run orc a r = Inr st \<longrightarrow> run_outcome a (nat (B div b)) st)"
proof (intro conjI impI)
  have sto: "epoch_result a 0 B (n div B) s brk s'"
    if "sto_epoch orc a n B (n div B) i s = Inr (brk, s')" for i s brk s'
    using sto_epoch_result [OF that] by simp
  have svrg: "epoch_result a n 1 n s brk s'"
    if "svrg_epoch orc a n 1 n i s = Inr (brk, s')" for i s brk s'
    using svrg_epoch_result [OF that] by simp
  have scsg: "epoch_result a B b (B div b) s brk s'"
    if "scsg_epoch orc a n B b i s = Inr (brk, s')" for i s brk s'
    using scsg_epoch_result [OF that] by simp
  {
    assume "sto_epoch orc a n B (n div B) i s = Inr (brk, s')"
    from sto [OF this]
    show "brk = terminal a (x_hat s')" "num_iter s' = num_iter s + int (nat (n div B))"
      by (simp_all add: epoch_result_def)
  }
  {
    assume "svrg_epoch orc a n 1 n i s = Inr (brk, s')"
    from svrg [OF this]
    show "brk = terminal a (x_hat s')" "num_iter s' = num_iter s + int (nat n)"
      by (simp_all add: epoch_result_def)
  }
  {
    assume "scsg_epoch orc a n B b i s = Inr (brk, s')"
    from scsg [OF this]
    show "brk = terminal a (x_hat s')" "num_iter s' = num_iter s + int (nat (B div b))"
      by (simp_all add: epoch_result_def)
  }
  {
    assume "sto_iht_run orc a r = Inr st"
    from sto_run_unfold [OF this assms(1,2)]
    have run: "for_break (py_range 0 (max_epochs a)) (sto_epoch orc a n B (n div B))
                  (init_state a r) = Inr st"
      by simp
    show "run_outcome a (nat (n div B)) st"
      by (rule for_break_outcome [of "sto_epoch orc a n B (n div B)" a 0 B "n div B", OF _ run])
        (rule sto)
  }
  {
    assume "svrg_iht_run orc a r = Inr st"
    then have run: "for_break (py_range 0 (max_epochs a)) (svrg_epoch orc a n 1 n)
                  (init_state a r) = Inr st"
      by (simp add: svrg_iht_run_def assms(1) Let_def)
    show "run_outcome a (nat n) st"
      by (rule for_break_outcome [of "svrg_epoch orc a n 1 n" a n 1 n, OF _ run]) (rule svrg)
  }
  {
    assume "scsg_iht_run orc a r = Inr st"
    then have run: "for_break (py_range 0 (max_epochs a)) (scsg_epoch orc a n B b)
                  (init_state a r) = Inr st"
      unfolding scsg_iht_run_def Let_def assms by (auto split: if_splits)
    show "run_outcome a (nat (B div b)) st"
      by (rule for_break_outcome [of "scsg_epoch orc a n B b" a B b "B div b", OF _ run])
        (rule scsg)
  }
qed

lemma ex_terminal:
  assumes "x_mat a = \<lparr>ncols = 2, rows = [[1, 0]]\<rparr>" "y_tr a = [y]"
  shows "terminal a [c, 0] \<longleftrightarrow> 100000 \<le> \<bar>c\<bar> \<or> \<bar>y - c\<bar> \<le> tol_algo a"
  by (simp add: terminal_def ex_residual [OF assms])

theorem run_stops_at_first_terminal_epoch_witness:
  "sto_iht_run ex_oracle ex_args ex_rng
     = Inr \<lparr>x_hat = [3 / 4, 0], num_epochs = 2, num_iter = 2,
            loss_list = [(1, 1 / 2), (2, 1 / 4)], rng = \<lparr>raw = (\<lambda>_. 0), drawn = 2\<rparr>\<rparr>
   \<and> \<not> terminal ex_args [3 / 4, 0]
   \<and> run_outcome ex_args 1 \<lparr>x_hat = [3 / 4, 0], num_epochs = 2, num_iter = 2,
            loss_list = [(1, 1 / 2), (2, 1 / 4)], rng = \<lparr>raw = (\<lambda>_. 0), drawn = 2\<rparr>\<rparr>
   \<and> svrg_iht_run ex_oracle ex_args ex_rng
     = Inr \<lparr>x_hat = [3 / 4, 0], num_epochs = 2, num_iter = 2,
            loss_list = [(2, 1 / 2), (3, 1 / 4)], rng = \<lparr>raw = (\<lambda>_. 0), drawn = 2\<rparr>\<rparr>
   \<and> run_outcome ex_args 1 \<lparr>x_hat = [3 / 4, 0], num_epochs = 2, num_iter = 2,
            loss_list = [(2, 1 / 2), (3, 1 / 4)], rng = \<lparr>raw = (\<lambda>_. 0), drawn = 2\<rparr>\<rparr>
   \<and> scsg_iht_run ex_oracle ex_args ex_rng
     = Inr \<lparr>x_hat = [3 / 4, 0], num_epochs = 2, num_iter = 2,
            loss_list = [(2, 1 / 2), (3, 1 / 4)], rng = \<lparr>raw = (\<lambda>_. 0), drawn = 4\<rparr>\<rparr>
   \<and> run_outcome ex_args 1 \<lparr>x_hat = [3 / 4, 0], num_epochs = 2, num_iter = 2,
            loss_list = [(2, 1 / 2), (3, 1 / 4)], rng = \<lparr>raw = (\<lambda>_. 0), drawn = 4\<rparr>\<rparr>"
proof -
  have a: "x_mat ex_args = \<lparr>ncols = 2, rows = [[1, 0]]\<rparr>" "y_tr ex_args = [1]"
    "tol_algo ex_args = 0" "block_size ex_args = 1" "mini_block_size ex_args = 1"
    by (simp_all add: ex_args_def)
  have nt: "\<not> terminal ex_args [3 / 4, 0]"
    by (simp add: ex_terminal [OF a(1,2)] a)
  note t = run_stops_at_first_terminal_epoch
    [OF refl refl refl, where a = ex_args and orc = ex_oracle and r = ex_rng]
  from t [where st = "\<lparr>x_hat = [3 / 4, 0], num_epochs = 2, num_iter = 2,
            loss_list = [(1, 1 / 2), (2, 1 / 4)], rng = \<lparr>raw = (\<lambda>_. 0), drawn = 2\<rparr>\<rparr>"]
    t [where st = "\<lparr>x_hat = [3 / 4, 0], num_epochs = 2, num_iter = 2,
            loss_list = [(2, 1 / 2), (3, 1 / 4)], rng = \<lparr>raw = (\<lambda>_. 0), drawn = 2\<rparr>\<rparr>"]
    t [where st = "\<lparr>x_hat = [3 / 4, 0], num_epochs = 2, num_iter = 2,
            loss_list = [(2, 1 / 2), (3, 1 / 4)], rng = \<lparr>raw = (\<lambda>_. 0), drawn = 4\<rparr>\<rparr>"]
    ex_sto_run ex_svrg_run ex_scsg_run nt a
  show ?thesis by (simp add: nrows_def)
qed

text \<open>
  The claim as it is written fails at the threshold: with an iterate of norm exactly
  \<open>1e5\<close> after the first epoch the norm does not exceed \<open>1e5\<close> and the residual norm
  \<open>1e5\<close> is above the tolerance 0, yet the run stops after one of its two epochs.
\<close>

theorem run_stops_at_threshold_counterexample:
  "sto_iht_run ex_oracle ex_args_edge ex_rng
     = Inr \<lparr>x_hat = [100000, 0], num_epochs = 1, num_iter = 1, loss_list = [],
            rng = \<lparr>raw = (\<lambda>_. 0), drawn = 1\<rparr>\<rparr>
   \<and> max_epochs ex_args_edge = 2
   \<and> \<not> 100000 < np_norm [100000, 0]
   \<and> residual_norm ex_args_edge [100000, 0] = Inr 100000
   \<and> \<not> (100000 :: real) \<le> tol_algo ex_args_edge"
proof -
  have a: "x_mat ex_args_edge = \<lparr>ncols = 2, rows = [[1, 0]]\<rparr>" "y_tr ex_args_edge = [0]"
    "tol_algo ex_args_edge = 0" "max_epochs ex_args_edge = 2"
    by (simp_all add: ex_args_edge_def)
  show ?thesis
    by (simp add: ex_edge_sto_run ex_residual [OF a(1,2)] a)
qed

subsection \<open>A block size above the sample count\<close>

lemma head_tail_step_block_size [simp]:
  "head_tail_step orc (a\<lparr>block_size := v\<rparr>) = head_tail_step orc a"
  by (intro ext) (simp add: head_tail_step_def h_low_def h_high_def t_low_def t_high_def)

lemma epoch_end_block_size [simp]:
  "epoch_end (a\<lparr>block_size := v\<rparr>) = epoch_end a"
  by (intro ext) (simp add: epoch_end_def residual_norm_def cong: if_cong)

lemma sto_inner_block_size [simp]:
  "sto_inner orc (a\<lparr>block_size := v\<rparr>) = sto_inner orc a"
  by (intro ext) (simp add: sto_inner_def)

lemma vr_inner_block_size [simp]:
  "vr_inner orc (a\<lparr>block_size := v\<rparr>) = vr_inner orc a"
  by (intro ext) (simp add: vr_inner_def vr_gradient_def cong: if_cong)

lemma sto_epoch_block_size [simp]:
  "sto_epoch orc (a\<lparr>block_size := v\<rparr>) = sto_epoch orc a"
  by (intro ext) (simp add: sto_epoch_def)

lemma scsg_epoch_block_size [simp]:
  "scsg_epoch orc (a\<lparr>block_size := v\<rparr>) = scsg_epoch orc a"
  by (intro ext) (simp add: scsg_epoch_def cong: if_cong)

lemma finish_block_size [simp]:
  "finish (a\<lparr>block_size := v\<rparr>) = finish a"
  by (intro ext) (simp add: finish_def)

lemma init_state_block_size [simp]:
  "init_state (a\<lparr>block_size := v\<rparr>) = init_state a"
  by (intro ext) (simp add: init_state_def)

text \<open>
  C9.  For Sto-IHT and SCSG-IHT a block size \<open>B\<close> above the number \<open>n\<close> of samples is
  replaced by \<open>n\<close> before the first epoch: the run returns what the run with \<open>B = n\<close>
  returns (on the same generator state), and a block of size \<open>n\<close> out of \<open>n\<close> samples is
  the whole data set \<open>[0, n)\<close>.
\<close>

theorem block_size_clamped_to_n:
  assumes "n = int (nrows (x_mat a))" and "n < block_size a"
  shows "algo_graph_sto_iht orc a r = algo_graph_sto_iht orc (a\<lparr>block_size := n\<rparr>) r
       \<and> algo_graph_scsg_iht orc a r = algo_graph_scsg_iht orc (a\<lparr>block_size := n\<rparr>) r
       \<and> (0 < n \<longrightarrow> get_batch n n g = Inr ([0..n - 1], g\<lparr>drawn := Suc (drawn g)\<rparr>))"
proof (intro conjI impI)
  show "algo_graph_sto_iht orc a r = algo_graph_sto_iht orc (a\<lparr>block_size := n\<rparr>) r"
    using assms by (simp add: algo_graph_sto_iht_def sto_iht_run_def Let_def)
  show "algo_graph_scsg_iht orc a r = algo_graph_scsg_iht orc (a\<lparr>block_size := n\<rparr>) r"
    using assms by (simp add: algo_graph_scsg_iht_def scsg_iht_run_def Let_def)
  show "get_batch n n g = Inr ([0..n - 1], g\<lparr>drawn := Suc (drawn g)\<rparr>)" if "0 < n"
    using that by (simp add: get_batch_def randint_def py_range_def)
qed

theorem block_size_clamped_to_n_witness:
  "int (nrows (x_mat (ex_args\<lparr>block_size := 5\<rparr>))) < block_size (ex_args\<lparr>block_size := 5\<rparr>)
   \<and> algo_graph_sto_iht ex_oracle (ex_args\<lparr>block_size := 5\<rparr>) ex_rng
       = Inr ([(1, 1 / 2), (2, 1 / 4)], 1 / 4, 2)
   \<and> algo_graph_scsg_iht ex_oracle (ex_args\<lparr>block_size := 5\<rparr>) ex_rng
       = Inr ([(2, 1 / 2), (3, 1 / 4)], 1 / 4, 2)"
proof -
  have a: "x_mat ex_args = \<lparr>ncols = 2, rows = [[1, 0]]\<rparr>" "x_star ex_args = [1, 0]"
    by (simp_all add: ex_args_def)
  have e: "ex_args\<lparr>block_size := 1\<rparr> = ex_args"
    by (simp add: ex_args_def)
  have 1: "algo_graph_sto_iht ex_oracle ex_args ex_rng = Inr ([(1, 1 / 2), (2, 1 / 4)], 1 / 4, 2)"
    by (simp add: algo_graph_sto_iht_def ex_sto_run finish_def np_sub_def a)
  have 3: "algo_graph_scsg_iht ex_oracle ex_args ex_rng = Inr ([(2, 1 / 2), (3, 1 / 4)], 1 / 4, 2)"
    by (simp add: algo_graph_scsg_iht_def ex_scsg_run finish_def np_sub_def a)
  from block_size_clamped_to_n
    [OF refl, where a = "ex_args\<lparr>block_size := 5\<rparr>" and orc = ex_oracle and r = ex_rng] 1 3
  show ?thesis by (simp add: a nrows_def e)
qed

subsection \<open>The iterations of an epoch, one by one\<close>

lemma for_range_trace:
  assumes "for_range k body st = Inr st'"
  shows "\<exists>tr. length tr = Suc k \<and> tr ! 0 = st \<and> tr ! k = st'
           \<and> (\<forall>j<k. body (tr ! j) = Inr (tr ! Suc j))"
  using assms
proof (induction k arbitrary: st)
  case 0
  then show ?case by (intro exI [of _ "[st]"]) simp
next
  case (Suc k)
  from Suc.prems obtain s1 where s1: "body st = Inr s1" "for_range k body s1 = Inr st'"
    by (auto simp: bind_err_eq_Inr)
  from Suc.IH [OF s1(2)] obtain tr where tr: "length tr = Suc k" "tr ! 0 = s1" "tr ! k = st'"
    "\<forall>j<k. body (tr ! j) = Inr (tr ! Suc j)"
    by blast
  have "body ((st # tr) ! j) = Inr ((st # tr) ! Suc j)" if "j < Suc k" for j
  proof (cases j)
    case 0
    with s1(1) tr(2) show ?thesis by simp
  next
    case (Suc j')
    with that tr(4) show ?thesis by simp
  qed
  with tr(1,3) show ?case
    by (intro exI [of _ "st # tr"]) simp
qed

lemma calc_grad_Inr:
  assumes "calc_grad X y x blk = Inr g"
  shows "length g = ncols X \<and> length x = ncols X"
  using assms by (auto simp: calc_grad_cases block_gradient_def split: if_splits)

lemma algo_head_tail_bisearch_length:
  assumes "algo_head_tail_bisearch orc es x cs g rt s_low s_high it vb = Inr (nodes, w)"
  shows "length w = length x"
proof -
  from assms obtain vals where "take_nodes x nodes = Inr vals"
    "w = put_nodes (replicate (length x) 0) nodes vals"
    by (auto simp: algo_head_tail_bisearch_def Let_def bind_err_eq_Inr)
  then have "\<forall>i\<in>set nodes. i < length x"
    "w = put_nodes (replicate (length x) 0) nodes (map (\<lambda>i. x ! i) nodes)"
    by (auto simp: take_nodes_def list_all_iff split: if_splits)
  then show ?thesis by (simp add: put_nodes_zeros)
qed

lemma np_sub_same_length: "length u = length v \<Longrightarrow> np_sub u v = Inr (map2 (-) u v)"
  by (simp add: np_sub_def)

lemma np_add_same_length: "length u = length v \<Longrightarrow> np_add u v = Inr (map2 (+) u v)"
  by (simp add: np_add_def)

lemma map2_sub_scale: "map2 (-) x (np_scale c w) = map2 (\<lambda>u v. u - c * v) x w"
  by (induction x w rule: list_induct2') (simp_all add: np_scale_def)

lemma sto_inner_steps:
  assumes "sto_inner orc a n B s = Inr s'"
  shows "\<exists>block gradient head_nodes proj_grad tail_nodes.
      get_batch B n (rng s) = Inr (block, rng s')
    \<and> calc_grad (x_mat a) (y_tr a) (x_hat s) block = Inr gradient
    \<and> algo_head_tail_bisearch orc (edges a) gradient (costs a) (components a) (root_node a)
        (h_low a) (h_high a) (proj_max_num_iter a) (verbose a) = Inr (head_nodes, proj_grad)
    \<and> algo_head_tail_bisearch orc (edges a) (map2 (\<lambda>u v. u - lr a * v) (x_hat s) proj_grad)
        (costs a) (components a) (root_node a)
        (t_low a) (t_high a) (proj_max_num_iter a) (verbose a) = Inr (tail_nodes, x_hat s')
    \<and> num_iter s' = num_iter s + 1"
proof -
  from sto_inner_Inr [OF assms] obtain block gradient where 1:
      "get_batch B n (rng s) = Inr (block, rng s')"
      "calc_grad (x_mat a) (y_tr a) (x_hat s) block = Inr gradient"
      "head_tail_step orc a (x_hat s) gradient = Inr (x_hat s')"
      "num_iter s' = num_iter s + 1"
    by blast
  from head_tail_step_Inr [OF 1(3)] obtain head_nodes proj_grad bt tail_nodes where 2:
      "algo_head_tail_bisearch orc (edges a) gradient (costs a) (components a) (root_node a)
        (h_low a) (h_high a) (proj_max_num_iter a) (verbose a) = Inr (head_nodes, proj_grad)"
      "np_sub (x_hat s) (np_scale (lr a) proj_grad) = Inr bt"
      "algo_head_tail_bisearch orc (edges a) bt (costs a) (components a) (root_node a)
        (t_low a) (t_high a) (proj_max_num_iter a) (verbose a) = Inr (tail_nodes, x_hat s')"
    by blast
  from calc_grad_Inr [OF 1(2)] algo_head_tail_bisearch_length [OF 2(1)]
  have "length (x_hat s) = length (np_scale (lr a) proj_grad)"
    by (simp add: np_scale_def)
  with 2(2) have "bt = map2 (\<lambda>u v. u - lr a * v) (x_hat s) proj_grad"
    by (simp add: np_sub_same_length map2_sub_scale)
  with 1 2 show ?thesis by blast
qed

text \<open>
  C2, as the code has it.  In Sto-IHT, with \<open>n\<close> rows and the block size \<open>B\<close> (already
  reduced to \<open>n\<close> when above it), an epoch performs exactly \<open>n div B\<close> inner iterations,
  the floor of \<open>n / B\<close>, which is the ceiling only when \<open>B\<close> divides \<open>n\<close>.  Each inner
  iteration draws one block, computes the block gradient at the current \<open>x_hat\<close>,
  head-projects it, takes a step of size \<open>lr\<close>, tail-projects the result and makes it the
  new \<open>x_hat\<close>.
\<close>

theorem sto_epoch_floor_iterations:
  assumes "n = int (nrows (x_mat a))"
    and "B = (if n < block_size a then n else block_size a)"
    and "sto_epoch orc a n B (n div B) i s = Inr (brk, s')"
  shows "(B \<noteq> 0 \<longrightarrow> sto_iht_run orc a r
            = for_break (py_range 0 (max_epochs a)) (sto_epoch orc a n B (n div B)) (init_state a r))
       \<and> n div B = \<lfloor>real_of_int n / real_of_int B\<rfloor>
       \<and> (B dvd n \<and> 0 < B \<longrightarrow> n div B = \<lceil>real_of_int n / real_of_int B\<rceil>)
       \<and> num_iter s' = num_iter s + int (nat (n div B))
       \<and> (\<exists>tr. length tr = Suc (nat (n div B))
            \<and> tr ! 0 = s\<lparr>num_epochs := num_epochs s + 1\<rparr>
            \<and> x_hat (tr ! nat (n div B)) = x_hat s'
            \<and> (\<forall>j<nat (n div B). \<exists>block gradient head_nodes proj_grad tail_nodes.
                  get_batch B n (rng (tr ! j)) = Inr (block, rng (tr ! Suc j))
                \<and> calc_grad (x_mat a) (y_tr a) (x_hat (tr ! j)) block = Inr gradient
                \<and> algo_head_tail_bisearch orc (edges a) gradient (costs a) (components a)
                    (root_node a) (h_low a) (h_high a) (proj_max_num_iter a) (verbose a)
                    = Inr (head_nodes, proj_grad)
                \<and> algo_head_tail_bisearch orc (edges a)
                    (map2 (\<lambda>u v. u - lr a * v) (x_hat (tr ! j)) proj_grad) (costs a)
                    (components a) (root_node a) (t_low a) (t_high a) (proj_max_num_iter a)
                    (verbose a) = Inr (tail_nodes, x_hat (tr ! Suc j))
                \<and> num_iter (tr ! Suc j) = num_iter (tr ! j) + 1))"
proof (intro conjI impI)
  show "sto_iht_run orc a r
     = for_break (py_range 0 (max_epochs a)) (sto_epoch orc a n B (n div B)) (init_state a r)"
    if "B \<noteq> 0"
    using that unfolding sto_iht_run_def Let_def assms(1,2) by simp
  show "n div B = \<lfloor>real_of_int n / real_of_int B\<rfloor>"
    by (simp add: floor_divide_of_int_eq)
  show "n div B = \<lceil>real_of_int n / real_of_int B\<rceil>" if "B dvd n \<and> 0 < B"
  proof -
    from that obtain q where q: "n = B * q" by (auto simp: dvd_def)
    with that have "real_of_int n / real_of_int B = real_of_int q" by simp
    moreover from q that have "n div B = q" by simp
    ultimately show ?thesis by simp
  qed
  from assms(3) obtain s1 where s1:
      "for_range (nat (n div B)) (sto_inner orc a n B) (s\<lparr>num_epochs := num_epochs s + 1\<rparr>) = Inr s1"
      "epoch_end a 0 B (n div B) s1 = Inr (brk, s')"
    unfolding sto_epoch_def Let_def by (auto simp: bind_err_eq_Inr)
  from sto_inner_loop [OF s1(1)] epoch_end_Inr [OF s1(2)]
  show "num_iter s' = num_iter s + int (nat (n div B))" by simp
  from for_range_trace [OF s1(1)] obtain tr where tr: "length tr = Suc (nat (n div B))"
      "tr ! 0 = s\<lparr>num_epochs := num_epochs s + 1\<rparr>" "tr ! nat (n div B) = s1"
      "\<forall>j<nat (n div B). sto_inner orc a n B (tr ! j) = Inr (tr ! Suc j)"
    by blast
  from tr(3) epoch_end_Inr [OF s1(2)] have "x_hat (tr ! nat (n div B)) = x_hat s'" by simp
  with tr(1,2,4) show "\<exists>tr. length tr = Suc (nat (n div B))
            \<and> tr ! 0 = s\<lparr>num_epochs := num_epochs s + 1\<rparr>
            \<and> x_hat (tr ! nat (n div B)) = x_hat s'
            \<and> (\<forall>j<nat (n div B). \<exists>block gradient head_nodes proj_grad tail_nodes.
                  get_batch B n (rng (tr ! j)) = Inr (block, rng (tr ! Suc j))
                \<and> calc_grad (x_mat a) (y_tr a) (x_hat (tr ! j)) block = Inr gradient
                \<and> algo_head_tail_bisearch orc (edges a) gradient (costs a) (components a)
                    (root_node a) (h_low a) (h_high a) (proj_max_num_iter a) (verbose a)
                    = Inr (head_nodes, proj_grad)
                \<and> algo_head_tail_bisearch orc (edges a)
                    (map2 (\<lambda>u v. u - lr a * v) (x_hat (tr ! j)) proj_grad) (costs a)
                    (components a) (root_node a) (t_low a) (t_high a) (proj_max_num_iter a)
                    (verbose a) = Inr (tail_nodes, x_hat (tr ! Suc j))
                \<and> num_iter (tr ! Suc j) = num_iter (tr ! j) + 1)"
    by (intro exI [of _ tr] conjI allI impI sto_inner_steps) simp_all
qed

lemma ex_sto_epoch:
  "sto_epoch ex_oracle ex_args 1 1 1 0 (init_state ex_args ex_rng)
     = Inr (False, \<lparr>x_hat = [1 / 2, 0], num_epochs = 1, num_iter = 1, loss_list = [(1, 1 / 2)],
              rng = \<lparr>raw = (\<lambda>_. 0), drawn = 1\<rparr>\<rparr>)"
proof -
  have a: "x_mat ex_args = \<lparr>ncols = 2, rows = [[1, 0]]\<rparr>" "y_tr ex_args = [1]"
    "max_epochs ex_args = 2" "x_star ex_args = [1, 0]" "x0 ex_args = [0, 0]"
    "tol_algo ex_args = 0" "block_size ex_args = 1" "lr ex_args = 1 / 4"
    by (simp_all add: ex_args_def)
  show ?thesis
    by (simp add: sto_epoch_def ex_sto_inner [OF a(1,2)] ex_residual [OF a(1,2)]
        a ex_rng_def np_sub_def epoch_end_def calc_num_observations_def init_state_def Let_def)
qed

theorem sto_epoch_floor_iterations_witness:
  "sto_epoch ex_oracle ex_args 1 1 (1 div 1) 0 (init_state ex_args ex_rng)
     = Inr (False, \<lparr>x_hat = [1 / 2, 0], num_epochs = 1, num_iter = 1, loss_list = [(1, 1 / 2)],
              rng = \<lparr>raw = (\<lambda>_. 0), drawn = 1\<rparr>\<rparr>)
   \<and> (1 :: int) = int (nrows (x_mat ex_args))
   \<and> (1 :: int) = (if (1 :: int) < block_size ex_args then 1 else block_size ex_args)
   \<and> num_iter \<lparr>x_hat = [1 / 2, 0], num_epochs = 1, num_iter = 1, loss_list = [(1, 1 / 2)],
              rng = \<lparr>raw = (\<lambda>_. 0), drawn = 1\<rparr>\<rparr>
       = num_iter (init_state ex_args ex_rng) + int (nat (1 div 1))"
proof -
  have a: "(1 :: int) = int (nrows (x_mat ex_args))"
    "(1 :: int) = (if (1 :: int) < block_size ex_args then 1 else block_size ex_args)"
    by (simp_all add: ex_args_def nrows_def)
  have e: "sto_epoch ex_oracle ex_args 1 1 (1 div 1) 0 (init_state ex_args ex_rng)
     = Inr (False, \<lparr>x_hat = [1 / 2, 0], num_epochs = 1, num_iter = 1, loss_list = [(1, 1 / 2)],
              rng = \<lparr>raw = (\<lambda>_. 0), drawn = 1\<rparr>\<rparr>)"
    using ex_sto_epoch by simp
  from sto_epoch_floor_iterations [OF a e] a e show ?thesis by blast
qed

text \<open>
  The claim as it is written fails when the block size does not divide the number of rows:
  with 3 rows and blocks of 2 the single epoch of the run makes 1 inner iteration, and the
  ceiling of \<open>3 / 2\<close> is 2.
\<close>

theorem sto_epoch_ceiling_counterexample:
  "sto_iht_run ex_oracle ex_args3 ex_rng
     = Inr \<lparr>x_hat = [1, 0], num_epochs = 1, num_iter = 1, loss_list = [],
            rng = \<lparr>raw = (\<lambda>_. 0), drawn = 1\<rparr>\<rparr>
   \<and> int (nrows (x_mat ex_args3)) = 3 \<and> block_size ex_args3 = 2
   \<and> \<lceil>(3 :: real) / 2\<rceil> = 2
   \<and> (1 :: int) \<noteq> 1 * \<lceil>real_of_int (int (nrows (x_mat ex_args3)))
                            / real_of_int (block_size ex_args3)\<rceil>"
proof -
  have "\<lceil>(3 :: real) / 2\<rceil> = 2" by (simp add: ceiling_eq_iff)
  then show ?thesis
    by (simp add: ex3_sto_run) (simp add: ex_args3_def nrows_def)
qed

subsection \<open>The variance-reduced inner iterations\<close>

lemma vr_gradient_rule:
  assumes "vr_gradient a i xn xh og blk = Inr gradient"
    and "length og = ncols (x_mat a)" and "0 \<le> i"
  shows "vr_rule a i xn xh og blk gradient"
proof (cases "i < 1")
  case True
  with assms(3) have "i = 0" by simp
  with assms(1) show ?thesis
    by (auto simp: vr_gradient_def vr_rule_def bind_err_eq_Inr)
next
  case False
  with assms(1) obtain g1 g2 d where g:
      "calc_grad (x_mat a) (y_tr a) xn blk = Inr g1"
      "calc_grad (x_mat a) (y_tr a) xh blk = Inr g2"
      "np_sub g1 g2 = Inr d" "np_add d og = Inr gradient"
    by (auto simp: vr_gradient_def bind_err_eq_Inr)
  from calc_grad_Inr [OF g(1)] calc_grad_Inr [OF g(2)]
  have len: "length g1 = ncols (x_mat a)" "length g2 = ncols (x_mat a)" by simp_all
  with g(3) have d: "d = map2 (-) g1 g2" by (simp add: np_sub_same_length)
  with len assms(2) g(4) have "gradient = map2 (+) (map2 (-) g1 g2) og"
    by (simp add: np_add_same_length)
  with False g(1,2) show ?thesis by (simp add: vr_rule_def)
qed

lemma vr_inner_trace:
  assumes run: "for_range k (vr_inner orc a n bsz i og) (xn0, s0) = Inr (xn, s1)"
    and og: "length og = ncols (x_mat a)" and i: "0 \<le> i"
  shows "\<exists>tr. length tr = Suc k \<and> tr ! 0 = (xn0, s0) \<and> tr ! k = (xn, s1)
     \<and> (\<forall>j<k. \<exists>blk gradient.
           get_batch bsz n (rng (snd (tr ! j))) = Inr (blk, rng (snd (tr ! Suc j)))
         \<and> vr_rule a i (fst (tr ! j)) (x_hat s0) og blk gradient
         \<and> head_tail_step orc a (fst (tr ! j)) gradient = Inr (fst (tr ! Suc j)))"
proof -
  from for_range_trace [OF run] obtain tr where tr: "length tr = Suc k" "tr ! 0 = (xn0, s0)"
      "tr ! k = (xn, s1)"
      "\<forall>j<k. vr_inner orc a n bsz i og (tr ! j) = Inr (tr ! Suc j)"
    by blast
  have step: "\<exists>blk gradient.
      get_batch bsz n (rng (snd (tr ! j))) = Inr (blk, rng (snd (tr ! Suc j)))
    \<and> vr_gradient a i (fst (tr ! j)) (x_hat (snd (tr ! j))) og blk = Inr gradient
    \<and> head_tail_step orc a (fst (tr ! j)) gradient = Inr (fst (tr ! Suc j))
    \<and> x_hat (snd (tr ! Suc j)) = x_hat (snd (tr ! j))" if "j < k" for j
  proof -
    from tr(4) that have "vr_inner orc a n bsz i og (fst (tr ! j), snd (tr ! j))
        = Inr (fst (tr ! Suc j), snd (tr ! Suc j))" by simp
    from vr_inner_Inr [OF this] show ?thesis by blast
  qed
  have xh: "x_hat (snd (tr ! j)) = x_hat s0" if "j \<le> k" for j
    using that
  proof (induction j)
    case 0
    then show ?case by (simp add: tr(2))
  next
    case (Suc j)
    then have "j < k" by simp
    from step [OF this] Suc show ?case by auto
  qed
  have "\<exists>blk gradient.
           get_batch bsz n (rng (snd (tr ! j))) = Inr (blk, rng (snd (tr ! Suc j)))
         \<and> vr_rule a i (fst (tr ! j)) (x_hat s0) og blk gradient
         \<and> head_tail_step orc a (fst (tr ! j)) gradient = Inr (fst (tr ! Suc j))"
    if "j < k" for j
  proof -
    from step [OF that] obtain blk gradient where s:
        "get_batch bsz n (rng (snd (tr ! j))) = Inr (blk, rng (snd (tr ! Suc j)))"
        "vr_gradient a i (fst (tr ! j)) (x_hat (snd (tr ! j))) og blk = Inr gradient"
        "head_tail_step orc a (fst (tr ! j)) gradient = Inr (fst (tr ! Suc j))"
      by blast
    from that xh [of j] s(2) have "vr_gradient a i (fst (tr ! j)) (x_hat s0) og blk = Inr gradient"
      by simp
    from vr_gradient_rule [OF this og i] s(1,3) show ?thesis by blast
  qed
  with tr(1,2,3) show ?thesis by blast
qed

lemma get_batch_single:
  assumes "get_batch 1 n r = Inr (blk, r')"
  shows "\<exists>k. 0 \<le> k \<and> k < n \<and> blk = [k]"
proof -
  from get_batch_Inr [OF assms] obtain k where "0 \<le> k" "k < n div 1" "blk = [1 * k..1 * (k + 1) - 1]"
    by blast
  then show ?thesis by (intro exI [of _ k]) simp
qed

lemma get_batch_length:
  assumes "get_batch bs n r = Inr (blk, r')" and "0 \<le> n"
  shows "0 < bs \<and> length blk = nat bs"
proof -
  from get_batch_Inr [OF assms(1)] obtain k where k: "bs \<noteq> 0" "0 < n div bs"
      "blk = [bs * k..bs * (k + 1) - 1]"
    by blast
  have pos: "0 < bs"
  proof (rule ccontr)
    assume "\<not> 0 < bs"
    with k(1) have "bs < 0" by simp
    with assms(2) have "n div bs \<le> 0" by (simp add: div_nonneg_neg_le0)
    with k(2) show False by simp
  qed
  with k(3) show ?thesis by (simp add: algebra_simps)
qed

lemma svrg_run_mini_block_size:
  "svrg_iht_run orc (a\<lparr>mini_block_size := v\<rparr>) r = svrg_iht_run orc a r"
proof -
  have 1: "head_tail_step orc (a\<lparr>mini_block_size := v\<rparr>) = head_tail_step orc a"
    by (intro ext) (simp add: head_tail_step_def h_low_def h_high_def t_low_def t_high_def)
  have 2: "epoch_end (a\<lparr>mini_block_size := v\<rparr>) = epoch_end a"
    by (intro ext) (simp add: epoch_end_def residual_norm_def cong: if_cong)
  have 3: "vr_inner orc (a\<lparr>mini_block_size := v\<rparr>) = vr_inner orc a"
    by (intro ext) (simp add: vr_inner_def vr_gradient_def 1 cong: if_cong)
  have 4: "svrg_epoch orc (a\<lparr>mini_block_size := v\<rparr>) = svrg_epoch orc a"
    by (intro ext) (simp add: svrg_epoch_def 2 3 cong: if_cong)
  show ?thesis
    by (simp add: svrg_iht_run_def 4 init_state_def)
qed

lemma svrg_run_block_size:
  "svrg_iht_run orc (a\<lparr>block_size := v\<rparr>) r = svrg_iht_run orc a r"
proof -
  have "svrg_epoch orc (a\<lparr>block_size := v\<rparr>) = svrg_epoch orc a"
    by (intro ext) (simp add: svrg_epoch_def cong: if_cong)
  then show ?thesis
    by (simp add: svrg_iht_run_def)
qed

text \<open>
  C1.  In SVRG-IHT the mini-batch size is 1 whatever the caller passes for \<open>b\<close> (and \<open>B\<close>):
  the run is the loop of epochs with \<open>b = 1\<close>.  In an epoch, the outer gradient is the
  gradient over all \<open>n\<close> samples at \<open>x_hat\<close>, computed once before the inner loop; each of
  the \<open>n\<close> inner iterations draws a block \<open>[k]\<close> of one sample and updates \<open>x_nil\<close> with the
  gradient given by \<open>vr_rule\<close>: the raw gradient at \<open>x_nil\<close> on the epoch of index 0,
  \<open>grad(x_nil, block) - grad(x_hat, block) + outer_grad\<close> on the later ones.
\<close>

theorem svrg_epoch_gradient_rule:
  assumes "n = int (nrows (x_mat a))" and "0 \<le> i"
    and "svrg_epoch orc a n 1 n i s = Inr (brk, s')"
  shows "svrg_iht_run orc (a\<lparr>block_size := B', mini_block_size := b'\<rparr>) r
           = for_break (py_range 0 (max_epochs a)) (svrg_epoch orc a n 1 n) (init_state a r)
       \<and> (\<exists>outer_grad tr.
             calc_grad (x_mat a) (y_tr a) (x_hat s) [0..n - 1] = Inr outer_grad
           \<and> length tr = Suc (nat n)
           \<and> tr ! 0 = (x_hat s, s\<lparr>num_epochs := num_epochs s + 1\<rparr>)
           \<and> fst (tr ! nat n) = x_hat s'
           \<and> (\<forall>j<nat n. \<exists>k gradient.
                 0 \<le> k \<and> k < n
               \<and> get_batch 1 n (rng (snd (tr ! j))) = Inr ([k], rng (snd (tr ! Suc j)))
               \<and> vr_rule a i (fst (tr ! j)) (x_hat s) outer_grad [k] gradient
               \<and> head_tail_step orc a (fst (tr ! j)) gradient = Inr (fst (tr ! Suc j))))"
proof
  have "svrg_iht_run orc (a\<lparr>block_size := B', mini_block_size := b'\<rparr>) r = svrg_iht_run orc a r"
    by (simp add: svrg_run_mini_block_size svrg_run_block_size)
  then show "svrg_iht_run orc (a\<lparr>block_size := B', mini_block_size := b'\<rparr>) r
           = for_break (py_range 0 (max_epochs a)) (svrg_epoch orc a n 1 n) (init_state a r)"
    by (simp add: svrg_iht_run_def Let_def assms(1))
next
  from assms(3) obtain og xn s1 where e:
      "calc_grad (x_mat a) (y_tr a) (x_hat s) (py_range 0 n) = Inr og"
      "for_range (nat n) (vr_inner orc a n 1 i og)
         (x_hat s, s\<lparr>num_epochs := num_epochs s + 1\<rparr>) = Inr (xn, s1)"
      "epoch_end a n 1 n (s1\<lparr>x_hat := xn\<rparr>) = Inr (brk, s')"
    unfolding svrg_epoch_def Let_def by (auto simp: bind_err_eq_Inr)
  from calc_grad_Inr [OF e(1)] have og: "length og = ncols (x_mat a)" by simp
  from vr_inner_trace [OF e(2) og assms(2)] obtain tr where tr:
      "length tr = Suc (nat n)" "tr ! 0 = (x_hat s, s\<lparr>num_epochs := num_epochs s + 1\<rparr>)"
      "tr ! nat n = (xn, s1)"
      "\<forall>j<nat n. \<exists>blk gradient.
           get_batch 1 n (rng (snd (tr ! j))) = Inr (blk, rng (snd (tr ! Suc j)))
         \<and> vr_rule a i (fst (tr ! j)) (x_hat s) og blk gradient
         \<and> head_tail_step orc a (fst (tr ! j)) gradient = Inr (fst (tr ! Suc j))"
    by auto
  from epoch_end_Inr [OF e(3)] tr(3) have last: "fst (tr ! nat n) = x_hat s'" by simp
  have "\<exists>k gradient. 0 \<le> k \<and> k < n
               \<and> get_batch 1 n (rng (snd (tr ! j))) = Inr ([k], rng (snd (tr ! Suc j)))
               \<and> vr_rule a i (fst (tr ! j)) (x_hat s) og [k] gradient
               \<and> head_tail_step orc a (fst (tr ! j)) gradient = Inr (fst (tr ! Suc j))"
    if "j < nat n" for j
  proof -
    from tr(4) that obtain blk gradient where b:
        "get_batch 1 n (rng (snd (tr ! j))) = Inr (blk, rng (snd (tr ! Suc j)))"
        "vr_rule a i (fst (tr ! j)) (x_hat s) og blk gradient"
        "head_tail_step orc a (fst (tr ! j)) gradient = Inr (fst (tr ! Suc j))"
      by blast
    from get_batch_single [OF b(1)] obtain k where "0 \<le> k" "k < n" "blk = [k]" by blast
    with b show ?thesis by blast
  qed
  with e(1) tr(1,2) last
  show "\<exists>outer_grad tr.
             calc_grad (x_mat a) (y_tr a) (x_hat s) [0..n - 1] = Inr outer_grad
           \<and> length tr = Suc (nat n)
           \<and> tr ! 0 = (x_hat s, s\<lparr>num_epochs := num_epochs s + 1\<rparr>)
           \<and> fst (tr ! nat n) = x_hat s'
           \<and> (\<forall>j<nat n. \<exists>k gradient.
                 0 \<le> k \<and> k < n
               \<and> get_batch 1 n (rng (snd (tr ! j))) = Inr ([k], rng (snd (tr ! Suc j)))
               \<and> vr_rule a i (fst (tr ! j)) (x_hat s) outer_grad [k] gradient
               \<and> head_tail_step orc a (fst (tr ! j)) gradient = Inr (fst (tr ! Suc j)))"
    unfolding py_range_def by blast
qed


lemma ex_svrg_epoch:
  "svrg_epoch ex_oracle ex_args 1 1 1 1 ex_svrg_state1 = Inr (False, ex_svrg_state2)"
proof -
  have a: "x_mat ex_args = \<lparr>ncols = 2, rows = [[1, 0]]\<rparr>" "y_tr ex_args = [1]"
    "x_star ex_args = [1, 0]" "tol_algo ex_args = 0" "lr ex_args = 1 / 4"
    by (simp_all add: ex_args_def)
  show ?thesis
    unfolding ex_svrg_state1_def ex_svrg_state2_def
    by (simp add: svrg_epoch_def ex_vr_inner [OF a(1,2)] ex_residual [OF a(1,2)] ex_calc_grad
        a np_sub_def epoch_end_def calc_num_observations_def Let_def py_range_def)
qed

theorem svrg_epoch_gradient_rule_witness:
  "(1 :: int) = int (nrows (x_mat ex_args)) \<and> (0 :: int) \<le> 1
   \<and> svrg_epoch ex_oracle ex_args 1 1 1 1 ex_svrg_state1 = Inr (False, ex_svrg_state2)
   \<and> (svrg_iht_run ex_oracle (ex_args\<lparr>block_size := 7, mini_block_size := 3\<rparr>) ex_rng
           = for_break (py_range 0 (max_epochs ex_args)) (svrg_epoch ex_oracle ex_args 1 1 1) (init_state ex_args ex_rng)
       \<and> (\<exists>outer_grad tr.
             calc_grad (x_mat ex_args) (y_tr ex_args) (x_hat ex_svrg_state1) [0..1 - 1] = Inr outer_grad
           \<and> length tr = Suc (nat 1)
           \<and> tr ! 0 = (x_hat ex_svrg_state1, ex_svrg_state1\<lparr>num_epochs := num_epochs ex_svrg_state1 + 1\<rparr>)
           \<and> fst (tr ! nat 1) = x_hat ex_svrg_state2
           \<and> (\<forall>j<nat 1. \<exists>k gradient.
                 0 \<le> k \<and> k < 1
               \<and> get_batch 1 1 (rng (snd (tr ! j))) = Inr ([k], rng (snd (tr ! Suc j)))
               \<and> vr_rule ex_args 1 (fst (tr ! j)) (x_hat ex_svrg_state1) outer_grad [k] gradient
               \<and> head_tail_step ex_oracle ex_args (fst (tr ! j)) gradient = Inr (fst (tr ! Suc j)))))"
proof -
  have n: "(1 :: int) = int (nrows (x_mat ex_args))"
    by (simp add: ex_args_def nrows_def)
  have i: "(0 :: int) \<le> 1" by simp
  show ?thesis
    by (rule svrg_epoch_gradient_rule [OF n i ex_svrg_epoch] n i ex_svrg_epoch conjI)+
qed

text \<open>
  C5.  In SCSG-IHT, with the block size \<open>B\<close> (reduced to \<open>n\<close> when above it) and the
  mini-block size \<open>b\<close>, an epoch draws one block of size \<open>B\<close> and takes the outer gradient
  at \<open>x_hat\<close> on that block alone, starts \<open>x_nil\<close> at \<open>x_hat\<close>, runs exactly \<open>B div b\<close> inner
  iterations, the floor of \<open>B / b\<close> (a fixed count: the generator is consulted for the
  blocks only, once for the outer block and once per inner iteration), each updating
  \<open>x_nil\<close> with the gradient given by \<open>vr_rule\<close> on a mini-block of its own, and ends with
  \<open>x_hat\<close> set to \<open>x_nil\<close>.
\<close>

theorem scsg_epoch_structure:
  assumes "n = int (nrows (x_mat a))"
    and "B = (if n < block_size a then n else block_size a)"
    and "b = mini_block_size a" and "0 \<le> i"
    and "scsg_epoch orc a n B b i s = Inr (brk, s')"
  shows "scsg_iht_run orc a r
           = for_break (py_range 0 (max_epochs a)) (scsg_epoch orc a n B b) (init_state a r)
       \<and> B div b = \<lfloor>real_of_int B / real_of_int b\<rfloor>
       \<and> num_iter s' = num_iter s + int (nat (B div b))
       \<and> drawn (rng s') = drawn (rng s) + 1 + nat (B div b)
       \<and> (\<exists>block r1 outer_grad tr.
             get_batch B n (rng s) = Inr (block, r1) \<and> length block = nat B
           \<and> calc_grad (x_mat a) (y_tr a) (x_hat s) block = Inr outer_grad
           \<and> length tr = Suc (nat (B div b))
           \<and> tr ! 0 = (x_hat s, s\<lparr>num_epochs := num_epochs s + 1, rng := r1\<rparr>)
           \<and> fst (tr ! nat (B div b)) = x_hat s'
           \<and> (\<forall>j<nat (B div b). \<exists>mini_block gradient.
                 get_batch b n (rng (snd (tr ! j))) = Inr (mini_block, rng (snd (tr ! Suc j)))
               \<and> vr_rule a i (fst (tr ! j)) (x_hat s) outer_grad mini_block gradient
               \<and> head_tail_step orc a (fst (tr ! j)) gradient = Inr (fst (tr ! Suc j))))"
proof (intro conjI)
  show "scsg_iht_run orc a r
           = for_break (py_range 0 (max_epochs a)) (scsg_epoch orc a n B b) (init_state a r)"
    unfolding scsg_iht_run_def Let_def assms(1,2,3) by simp
  show "B div b = \<lfloor>real_of_int B / real_of_int b\<rfloor>"
    by (simp add: floor_divide_of_int_eq)
  from scsg_epoch_result [OF assms(5)]
  show "num_iter s' = num_iter s + int (nat (B div b))"
    "drawn (rng s') = drawn (rng s) + 1 + nat (B div b)"
    by (simp_all add: epoch_result_def)
  from assms(5) obtain block r1 og xn s1 where e:
      "get_batch B n (rng s) = Inr (block, r1)"
      "calc_grad (x_mat a) (y_tr a) (x_hat s) block = Inr og"
      "for_range (nat (B div b)) (vr_inner orc a n b i og)
         (x_hat s, s\<lparr>num_epochs := num_epochs s + 1, rng := r1\<rparr>) = Inr (xn, s1)"
      "epoch_end a B b (B div b) (s1\<lparr>x_hat := xn\<rparr>) = Inr (brk, s')"
    unfolding scsg_epoch_def Let_def by (auto simp: bind_err_eq_Inr split: if_splits)
  have "0 \<le> n" by (simp add: assms(1))
  from get_batch_length [OF e(1) this] have len: "length block = nat B" by simp
  from calc_grad_Inr [OF e(2)] have og: "length og = ncols (x_mat a)" by simp
  from vr_inner_trace [OF e(3) og assms(4)] obtain tr where tr:
      "length tr = Suc (nat (B div b))"
      "tr ! 0 = (x_hat s, s\<lparr>num_epochs := num_epochs s + 1, rng := r1\<rparr>)"
      "tr ! nat (B div b) = (xn, s1)"
      "\<forall>j<nat (B div b). \<exists>blk gradient.
           get_batch b n (rng (snd (tr ! j))) = Inr (blk, rng (snd (tr ! Suc j)))
         \<and> vr_rule a i (fst (tr ! j)) (x_hat s) og blk gradient
         \<and> head_tail_step orc a (fst (tr ! j)) gradient = Inr (fst (tr ! Suc j))"
    by auto
  from epoch_end_Inr [OF e(4)] tr(3) have last: "fst (tr ! nat (B div b)) = x_hat s'" by simp
  from e(1,2) len tr(1,2,4) last
  show "\<exists>block r1 outer_grad tr.
             get_batch B n (rng s) = Inr (block, r1) \<and> length block = nat B
           \<and> calc_grad (x_mat a) (y_tr a) (x_hat s) block = Inr outer_grad
           \<and> length tr = Suc (nat (B div b))
           \<and> tr ! 0 = (x_hat s, s\<lparr>num_epochs := num_epochs s + 1, rng := r1\<rparr>)
           \<and> fst (tr ! nat (B div b)) = x_hat s'
           \<and> (\<forall>j<nat (B div b). \<exists>mini_block gradient.
                 get_batch b n (rng (snd (tr ! j))) = Inr (mini_block, rng (snd (tr ! Suc j)))
               \<and> vr_rule a i (fst (tr ! j)) (x_hat s) outer_grad mini_block gradient
               \<and> head_tail_step orc a (fst (tr ! j)) gradient = Inr (fst (tr ! Suc j)))"
    by blast
qed

lemma ex_scsg_epoch:
  "scsg_epoch ex_oracle ex_args 1 1 1 1 ex_scsg_state1 = Inr (False, ex_scsg_state2)"
proof -
  have a: "x_mat ex_args = \<lparr>ncols = 2, rows = [[1, 0]]\<rparr>" "y_tr ex_args = [1]"
    "x_star ex_args = [1, 0]" "tol_algo ex_args = 0" "lr ex_args = 1 / 4"
    by (simp_all add: ex_args_def)
  show ?thesis
    unfolding ex_scsg_state1_def ex_scsg_state2_def
    by (simp add: scsg_epoch_def ex_vr_inner [OF a(1,2)] ex_residual [OF a(1,2)] ex_calc_grad
        ex_get_batch a np_sub_def epoch_end_def calc_num_observations_def Let_def)
qed

theorem scsg_epoch_structure_witness:
  "(1 :: int) = int (nrows (x_mat ex_args))
   \<and> (1 :: int) = (if (1 :: int) < block_size ex_args then 1 else block_size ex_args)
   \<and> (1 :: int) = mini_block_size ex_args \<and> (0 :: int) \<le> 1
   \<and> scsg_epoch ex_oracle ex_args 1 1 1 1 ex_scsg_state1 = Inr (False, ex_scsg_state2)
   \<and> (scsg_iht_run ex_oracle ex_args ex_rng
           = for_break (py_range 0 (max_epochs ex_args)) (scsg_epoch ex_oracle ex_args 1 1 1) (init_state ex_args ex_rng)
       \<and> 1 div 1 = \<lfloor>real_of_int 1 / real_of_int 1\<rfloor>
       \<and> num_iter ex_scsg_state2 = num_iter ex_scsg_state1 + int (nat (1 div 1))
       \<and> drawn (rng ex_scsg_state2) = drawn (rng ex_scsg_state1) + 1 + nat (1 div 1)
       \<and> (\<exists>block r1 outer_grad tr.
             get_batch 1 1 (rng ex_scsg_state1) = Inr (block, r1) \<and> length block = nat 1
           \<and> calc_grad (x_mat ex_args) (y_tr ex_args) (x_hat ex_scsg_state1) block = Inr outer_grad
           \<and> length tr = Suc (nat (1 div 1))
           \<and> tr ! 0 = (x_hat ex_scsg_state1, ex_scsg_state1\<lparr>num_epochs := num_epochs ex_scsg_state1 + 1, rng := r1\<rparr>)
           \<and> fst (tr ! nat (1 div 1)) = x_hat ex_scsg_state2
           \<and> (\<forall>j<nat (1 div 1). \<exists>mini_block gradient.
                 get_batch 1 1 (rng (snd (tr ! j))) = Inr (mini_block, rng (snd (tr ! Suc j)))
               \<and> vr_rule ex_args 1 (fst (tr ! j)) (x_hat ex_scsg_state1) outer_grad mini_block gradient
               \<and> head_tail_step ex_oracle ex_args (fst (tr ! j)) gradient = Inr (fst (tr ! Suc j)))))"
proof -
  have n: "(1 :: int) = int (nrows (x_mat ex_args))"
    and B: "(1 :: int) = (if (1 :: int) < block_size ex_args then 1 else block_size ex_args)"
    and b: "(1 :: int) = mini_block_size ex_args"
    by (simp_all add: ex_args_def nrows_def)
  have i: "(0 :: int) \<le> 1" by simp
  show ?thesis
    by (rule scsg_epoch_structure [OF n B b i ex_scsg_epoch] n B b i ex_scsg_epoch conjI)+
qed

end
